theory Spec2Isabelle
  imports Main
begin

section \<open>Python values as the two handlers see them\<close>

text \<open>
  Both handlers receive \<^verbatim>\<open>event: Dict[str, Any]\<close>, a mapping decoded from JSON, and
  read it with \<^verbatim>\<open>in\<close>, \<^verbatim>\<open>[...]\<close>, \<^verbatim>\<open>.get\<close>, truth tests and a few string methods.
  A value is therefore a JSON value. A mapping is an association list, read with
  \<open>map_of\<close> (keys are expected to be distinct, as in a dict); it keeps the insertion
  order, which is the order \<^verbatim>\<open>json.dumps\<close> writes.

  Two limits of the model. Numbers are integers: floating-point values are left out.
  A string is a list of 8-bit characters, read as the code points below 256; the
  definitions of white space, of \<^verbatim>\<open>int\<close> and of the JSON escapes below are Python's,
  restricted to these code points.
\<close>

datatype json =
    JNull
  | JBool bool
  | JInt int
  | JStr string
  | JList "json list"
  | JObj "(string \<times> json) list"

type_synonym dict = "(string \<times> json) list"

text \<open>The exceptions that the operations used by the handlers can raise.\<close>

datatype exn = AttributeError | TypeError | ValueError | KeyError | IndexError

text \<open>A computation that may raise is a value of \<open>exn + 'a\<close>. Statements in sequence:
  the first exception ends the computation.\<close>

definition and_then :: "exn + 'a \<Rightarrow> ('a \<Rightarrow> exn + 'b) \<Rightarrow> exn + 'b" where
  "and_then r f = (case r of Inl e \<Rightarrow> Inl e | Inr v \<Rightarrow> f v)"

text \<open>Truth value of a value, as tested by \<^verbatim>\<open>if x\<close>, \<^verbatim>\<open>not x\<close>, \<^verbatim>\<open>x and y\<close>, \<^verbatim>\<open>x or y\<close>.\<close>

fun truthy :: "json \<Rightarrow> bool" where
  "truthy JNull = False"
| "truthy (JBool b) = b"
| "truthy (JInt n) = (n \<noteq> 0)"
| "truthy (JStr s) = (s \<noteq> [])"
| "truthy (JList xs) = (xs \<noteq> [])"
| "truthy (JObj kvs) = (kvs \<noteq> [])"

text \<open>\<^verbatim>\<open>d.get(k, default)\<close> on a dict: the stored value, also when it is \<^verbatim>\<open>None\<close>.\<close>

definition dict_get :: "dict \<Rightarrow> string \<Rightarrow> json \<Rightarrow> json" where
  "dict_get d k dflt = (case map_of d k of Some v \<Rightarrow> v | None \<Rightarrow> dflt)"

text \<open>\<^verbatim>\<open>x.get(k, default)\<close> on any value: only a dict has the method.\<close>

fun py_get :: "json \<Rightarrow> string \<Rightarrow> json \<Rightarrow> exn + json" where
  "py_get (JObj d) k dflt = Inr (dict_get d k dflt)"
| "py_get _ k dflt = Inl AttributeError"

text \<open>\<^verbatim>\<open>k in x\<close> for a string \<open>k\<close>: a key test on a dict, an element test on a
  list, a substring test on a string, a \<^verbatim>\<open>TypeError\<close> on anything else.\<close>

fun starts_with :: "string \<Rightarrow> string \<Rightarrow> bool" where
  "starts_with [] s = True"
| "starts_with (c # cs) [] = False"
| "starts_with (c # cs) (d # ds) = (c = d \<and> starts_with cs ds)"

fun contains :: "string \<Rightarrow> string \<Rightarrow> bool" where
  "contains k [] = (k = [])"
| "contains k (d # ds) = (starts_with k (d # ds) \<or> contains k ds)"

fun py_in :: "string \<Rightarrow> json \<Rightarrow> exn + bool" where
  "py_in k (JObj d) = Inr (map_of d k \<noteq> None)"
| "py_in k (JList xs) = Inr (List.member xs (JStr k))"
| "py_in k (JStr s) = Inr (contains k s)"
| "py_in k _ = Inl TypeError"

text \<open>\<^verbatim>\<open>x[k]\<close> for a string \<open>k\<close>: a dict raises \<^verbatim>\<open>KeyError\<close> on a missing key;
  strings and lists take integer indices only; nothing else can be subscripted.\<close>

fun py_subscript :: "json \<Rightarrow> string \<Rightarrow> exn + json" where
  "py_subscript (JObj d) k = (case map_of d k of Some v \<Rightarrow> Inr v | None \<Rightarrow> Inl KeyError)"
| "py_subscript _ k = Inl TypeError"

subsection \<open>String methods\<close>

text \<open>White space of \<^verbatim>\<open>str.strip()\<close>: the code points below 256 for which
  \<^verbatim>\<open>str.isspace\<close> holds.\<close>

definition is_space :: "char \<Rightarrow> bool" where
  "is_space c = (of_char c \<in> {9, 10, 11, 12, 13, 28, 29, 30, 31, 32, 133, 160 :: nat})"

definition strip :: "string \<Rightarrow> string" where
  "strip s = rev (dropWhile is_space (rev (dropWhile is_space s)))"

fun py_strip :: "json \<Rightarrow> exn + string" where
  "py_strip (JStr s) = Inr (strip s)"
| "py_strip _ = Inl AttributeError"

text \<open>\<^verbatim>\<open>s.split(sep)\<close> for a one-character separator: the pieces between the
  separators, at least one piece.\<close>

fun split :: "char \<Rightarrow> string \<Rightarrow> string list" where
  "split sep [] = [[]]"
| "split sep (c # cs) =
     (if c = sep then [] # split sep cs
      else (case split sep cs of [] \<Rightarrow> [[c]] | p # ps \<Rightarrow> (c # p) # ps))"

fun py_split :: "json \<Rightarrow> char \<Rightarrow> exn + string list" where
  "py_split (JStr s) sep = Inr (split sep s)"
| "py_split _ sep = Inl AttributeError"

text \<open>\<^verbatim>\<open>xs[0]\<close> on a list.\<close>

fun first :: "'a list \<Rightarrow> exn + 'a" where
  "first [] = Inl IndexError"
| "first (x # xs) = Inr x"

subsection \<open>\<^verbatim>\<open>int(x)\<close>\<close>

text \<open>
  On a string, \<^verbatim>\<open>int\<close> drops the white space around the text (the ASCII white space
  and, below 256, the code points 133 and 160, but not 28 to 31), reads an optional sign
  and then decimal digits, where single underscores may stand between digits. Anything
  else is a \<^verbatim>\<open>ValueError\<close>, and so is a text with more digits than the interpreter's
  limit, 4300 by default (\<^verbatim>\<open>sys.get_int_max_str_digits()\<close>); the limit counts the digit
  characters, leading zeros included, and neither the sign, the underscores nor the white
  space. The JSON decoder applies the same limit, so an integer of an event has at most
  4300 digits.
\<close>

definition max_str_digits :: nat where
  "max_str_digits = 4300"

definition is_int_space :: "char \<Rightarrow> bool" where
  "is_int_space c = (of_char c \<in> {9, 10, 11, 12, 13, 32, 133, 160 :: nat})"

definition is_digit :: "char \<Rightarrow> bool" where
  "is_digit c = (48 \<le> (of_char c :: nat) \<and> (of_char c :: nat) \<le> 57)"

definition digit_val :: "char \<Rightarrow> nat" where
  "digit_val c = of_char c - 48"

text \<open>\<open>digits acc after_digit s\<close> reads the digits of \<open>s\<close> into the accumulator;
  \<open>after_digit\<close> tells whether the previous character was a digit, which is where an
  underscore or the end of the text is allowed.\<close>

fun digits :: "nat \<Rightarrow> bool \<Rightarrow> string \<Rightarrow> nat option" where
  "digits acc after_digit [] = (if after_digit then Some acc else None)"
| "digits acc after_digit (c # cs) =
     (if is_digit c then digits (10 * acc + digit_val c) True cs
      else if c = CHR ''_'' \<and> after_digit then digits acc False cs
      else None)"

definition signed_digits :: "string \<Rightarrow> int option" where
  "signed_digits s =
     (case s of
        [] \<Rightarrow> None
      | c # cs \<Rightarrow>
          if c = CHR ''-'' then map_option (\<lambda>n. - int n) (digits 0 False cs)
          else if c = CHR ''+'' then map_option int (digits 0 False cs)
          else map_option int (digits 0 False (c # cs)))"

definition int_of_str :: "string \<Rightarrow> int option" where
  "int_of_str s =
     (let trimmed = rev (dropWhile is_int_space (rev (dropWhile is_int_space s))) in
      if length (filter is_digit trimmed) > max_str_digits then None
      else signed_digits trimmed)"

fun py_int :: "json \<Rightarrow> exn + int" where
  "py_int (JInt n) = Inr n"
| "py_int (JBool b) = Inr (if b then 1 else 0)"
| "py_int (JStr s) = (case int_of_str s of Some n \<Rightarrow> Inr n | None \<Rightarrow> Inl ValueError)"
| "py_int _ = Inl TypeError"

subsection \<open>Writing values: \<^verbatim>\<open>json.dumps\<close> and \<^verbatim>\<open>str\<close>\<close>

definition digit_char :: "nat \<Rightarrow> char" where
  "digit_char d = ''0123456789abcdef'' ! (d mod 16)"

fun str_of_nat :: "nat \<Rightarrow> string" where
  "str_of_nat n =
     (if n < 10 then [digit_char n] else str_of_nat (n div 10) @ [digit_char (n mod 10)])"

declare str_of_nat.simps [simp del]

definition str_of_int :: "int \<Rightarrow> string" where
  "str_of_int i = (if i < 0 then CHR ''-'' # str_of_nat (nat (- i)) else str_of_nat (nat i))"

fun join :: "string \<Rightarrow> string list \<Rightarrow> string" where
  "join sep [] = []"
| "join sep [x] = x"
| "join sep (x # y # ys) = x @ sep @ join sep (y # ys)"

text \<open>
  \<^verbatim>\<open>json.dumps\<close> with its defaults (\<^verbatim>\<open>ensure_ascii=True\<close>, separators \<^verbatim>\<open>", "\<close> and
  \<^verbatim>\<open>": "\<close>): inside a string the quote and the backslash are escaped, the characters
  8, 9, 10, 12 and 13 have their short escapes, and every other character outside
  32..126 is written as a backslash, \<^verbatim>\<open>u\<close> and four hexadecimal digits.
\<close>

definition escape_char :: "char \<Rightarrow> string" where
  "escape_char c =
     (let n = (of_char c :: nat) in
      if n = 0x22 then [CHR 0x5C, CHR 0x22]
      else if n = 0x5C then [CHR 0x5C, CHR 0x5C]
      else if n = 0x0A then [CHR 0x5C, CHR ''n'']
      else if n = 0x0D then [CHR 0x5C, CHR ''r'']
      else if n = 0x09 then [CHR 0x5C, CHR ''t'']
      else if n = 0x08 then [CHR 0x5C, CHR ''b'']
      else if n = 0x0C then [CHR 0x5C, CHR ''f'']
      else if 0x20 \<le> n \<and> n \<le> 0x7E then [c]
      else [CHR 0x5C, CHR ''u'', CHR ''0'', CHR ''0'', digit_char (n div 16), digit_char (n mod 16)])"

definition quote :: "string \<Rightarrow> string" where
  "quote s = CHR 0x22 # concat (map escape_char s) @ [CHR 0x22]"

primrec dumps :: "json \<Rightarrow> string" where
  "dumps JNull = ''null''"
| "dumps (JBool b) = (if b then ''true'' else ''false'')"
| "dumps (JInt n) = str_of_int n"
| "dumps (JStr s) = quote s"
| "dumps (JList xs) = ''['' @ join '', '' (map dumps xs) @ '']''"
| "dumps (JObj kvs) =
     ''{'' @ join '', '' (map (\<lambda>(k, s). quote k @ '': '' @ s) (map (map_prod id dumps) kvs)) @ ''}''"

text \<open>
  \<^verbatim>\<open>str(x)\<close>, which an f-string applies to the value it interpolates: a string as it
  is, anything else by \<^verbatim>\<open>repr\<close>. The \<^verbatim>\<open>repr\<close> of a string is quoted with \<^verbatim>\<open>'\<close>, or with
  \<^verbatim>\<open>"\<close> when the string has a \<^verbatim>\<open>'\<close> and no \<^verbatim>\<open>"\<close>; below 256 the characters that are not
  printable (0..31, 127..160, 173) are escaped.
\<close>

definition repr_char :: "char \<Rightarrow> char \<Rightarrow> string" where
  "repr_char q c =
     (let n = (of_char c :: nat) in
      if c = q \<or> n = 0x5C then [CHR 0x5C, c]
      else if n = 0x09 then [CHR 0x5C, CHR ''t'']
      else if n = 0x0A then [CHR 0x5C, CHR ''n'']
      else if n = 0x0D then [CHR 0x5C, CHR ''r'']
      else if n < 0x20 \<or> (0x7F \<le> n \<and> n \<le> 0xA0) \<or> n = 0xAD
        then [CHR 0x5C, CHR ''x'', digit_char (n div 16), digit_char (n mod 16)]
      else [c])"

definition repr_str :: "string \<Rightarrow> string" where
  "repr_str s =
     (let q = (if CHR 0x27 \<in> set s \<and> CHR 0x22 \<notin> set s then CHR 0x22 else CHR 0x27)
      in q # concat (map (repr_char q) s) @ [q])"

primrec repr :: "json \<Rightarrow> string" where
  "repr JNull = ''None''"
| "repr (JBool b) = (if b then ''True'' else ''False'')"
| "repr (JInt n) = str_of_int n"
| "repr (JStr s) = repr_str s"
| "repr (JList xs) = ''['' @ join '', '' (map repr xs) @ '']''"
| "repr (JObj kvs) =
     ''{'' @ join '', '' (map (\<lambda>(k, s). repr_str k @ '': '' @ s) (map (map_prod id repr) kvs)) @ ''}''"

fun py_str :: "json \<Rightarrow> string" where
  "py_str (JStr s) = s"
| "py_str v = repr v"

section \<open>Responses and the invocation context\<close>

text \<open>
  A response is the dict a handler returns. The key \<^verbatim>\<open>headers\<close> is optional: two
  of the Greeter's return statements do not set it.
\<close>

record response =
  statusCode :: int
  headers :: "(string \<times> string) list option"
  body :: string

text \<open>
  The second parameter, \<^verbatim>\<open>context: Any\<close>. The code only tests its truth value and
  reads its attribute \<^verbatim>\<open>aws_request_id\<close>: \<open>NoContext\<close> is \<^verbatim>\<open>None\<close> (or any false
  value), \<open>LambdaContext rid\<close> is a true object with the attribute, \<open>OtherObject\<close> is
  a true object without it (a non-empty dict, for one).
\<close>

datatype invocation_context = NoContext | LambdaContext string | OtherObject

text \<open>
  \<^verbatim>\<open>datetime.utcnow().isoformat()\<close> reads the clock. Each return statement calls
  it once, so a handler takes its result as the parameter \<open>now\<close>. The calls to
  \<^verbatim>\<open>logger\<close> write a log line and return nothing; they are left out, except that
  \<open>log_request_metrics\<close> keeps the lookups that build its log line, since they can raise.
\<close>

section \<open>The Greeter: \<^verbatim>\<open>src/lambda_function.py\<close>\<close>

text \<open>\<^verbatim>\<open>validate_parameters\<close>: only \<^verbatim>\<open>ValueError\<close> is caught, around \<^verbatim>\<open>int\<close>.\<close>

definition validate_parameters :: "json \<Rightarrow> exn + (bool \<times> string option)" where
  "validate_parameters query_params =
     (if \<not> truthy query_params then Inr (False, Some ''No query parameters provided ya dodo'')
      else
        and_then (py_get query_params ''name'' (JStr [])) (\<lambda>n.
        and_then (py_strip n) (\<lambda>name.
        and_then (py_get query_params ''age'' (JStr [])) (\<lambda>age_str.
          if name = [] then Inr (False, Some ''Name parameter is required ya dodo'')
          else if truthy age_str then
            (case py_int age_str of
               Inr age \<Rightarrow>
                 if age < 0 \<or> age > 150 then Inr (False, Some ''Age must be between 0 and 150'')
                 else Inr (True, None)
             | Inl ValueError \<Rightarrow> Inr (False, Some ''Age must be a valid number'')
             | Inl e \<Rightarrow> Inl e)
          else Inr (True, None)))))"

text \<open>\<^verbatim>\<open>log_request_metrics\<close>: the fields of the log line that come from the event
  (the duration and the timestamp are clock readings).\<close>

record metrics =
  requestId :: json
  httpMethod :: json
  path :: json
  sourceIp :: json

definition log_request_metrics :: "dict \<Rightarrow> exn + metrics" where
  "log_request_metrics event =
     (let request_context = dict_get event ''requestContext'' (JObj []) in
      and_then (py_get request_context ''requestId'' (JStr ''N/A'')) (\<lambda>rid.
      and_then (py_get request_context ''http'' (JObj [])) (\<lambda>http.
      and_then (py_get http ''method'' (JStr ''N/A'')) (\<lambda>m.
      and_then (py_get http ''path'' (JStr ''N/A'')) (\<lambda>p.
      and_then (py_get http ''sourceIp'' (JStr ''N/A'')) (\<lambda>ip.
        Inr \<lparr>requestId = rid, httpMethod = m, path = p, sourceIp = ip\<rparr>))))))"

text \<open>\<^verbatim>\<open>event.get('queryStringParameters', {}) or {}\<close>\<close>

definition query_parameters :: "dict \<Rightarrow> json" where
  "query_parameters event =
     (let q = dict_get event ''queryStringParameters'' (JObj []) in
      if truthy q then q else JObj [])"

definition json_of_option :: "string option \<Rightarrow> json" where
  "json_of_option x = (case x of None \<Rightarrow> JNull | Some s \<Rightarrow> JStr s)"

text \<open>Lines 84 to 87: the status code.\<close>

definition status_for_age :: "json \<Rightarrow> exn + int" where
  "status_for_age age =
     (if truthy age then and_then (py_int age) (\<lambda>a. Inr (if a < 18 then 202 else 200))
      else Inr 200)"

text \<open>The body of the handler's \<^verbatim>\<open>try\<close>.\<close>

definition greeter_try :: "dict \<Rightarrow> string \<Rightarrow> exn + response" where
  "greeter_try event now =
     (let query_params = query_parameters event in
      and_then (validate_parameters query_params) (\<lambda>(is_valid, error_message).
        if \<not> is_valid then
          Inr \<lparr>statusCode = 400, headers = None,
               body = dumps (JObj [(''error'', json_of_option error_message),
                                   (''status'', JStr ''failed'')])\<rparr>
        else
          and_then (py_get query_params ''name'' JNull) (\<lambda>name.
          and_then (py_get query_params ''age'' JNull) (\<lambda>age.
          and_then (status_for_age age) (\<lambda>status_code.
          let response_body =
                JObj [(''message'', JStr (''Hello '' @ py_str name @ ''!'')),
                      (''age_provided'', age),
                      (''processed_at'', JStr now),
                      (''status'', JStr ''success'')] in
          and_then (log_request_metrics event) (\<lambda>logged.
            Inr \<lparr>statusCode = status_code,
                 headers = Some [(''Content-Type'', ''application/json''),
                                 (''X-Custom-Header'', ''Lambda Demo'')],
                 body = dumps response_body\<rparr>))))))"

text \<open>\<^verbatim>\<open>lambda_handler\<close> of the Greeter: any exception gives the 500 response.\<close>

definition greeter_lambda_handler :: "dict \<Rightarrow> invocation_context \<Rightarrow> string \<Rightarrow> response" where
  "greeter_lambda_handler event ctx now =
     (case greeter_try event now of
        Inr r \<Rightarrow> r
      | Inl e \<Rightarrow>
          \<lparr>statusCode = 500, headers = None,
           body = dumps (JObj [(''error'', JStr ''Internal server error''),
                               (''status'', JStr ''error'')])\<rparr>)"

section \<open>The IP extractor: \<^verbatim>\<open>src/lambda_SAM/.aws-sam/build/lambdaSAM/lambda_function.py\<close>\<close>

text \<open>Lines 23 to 27 of \<^verbatim>\<open>get_client_ip\<close>: the \<^verbatim>\<open>x-forwarded-for\<close> header. In
  \<^verbatim>\<open>headers and k in headers\<close> the key test runs only when \<^verbatim>\<open>headers\<close> is true.\<close>

definition forwarded_for :: "dict \<Rightarrow> exn + json" where
  "forwarded_for event =
     (let hdrs = dict_get event ''headers'' (JObj []) in
      if \<not> truthy hdrs then Inr JNull
      else
        and_then (py_in ''x-forwarded-for'' hdrs) (\<lambda>present.
          if present then
            and_then (py_subscript hdrs ''x-forwarded-for'') (\<lambda>v.
            and_then (py_split v (CHR '','')) (\<lambda>pieces.
            and_then (first pieces) (\<lambda>piece.
              Inr (JStr (strip piece)))))
          else Inr JNull))"

text \<open>The body of the \<^verbatim>\<open>try\<close> of \<^verbatim>\<open>get_client_ip\<close>. Each of the two gateway
  branches ends in a \<^verbatim>\<open>return\<close>.\<close>

definition get_client_ip_try :: "dict \<Rightarrow> exn + json" where
  "get_client_ip_try event =
     (case map_of event ''requestContext'' of
        None \<Rightarrow> forwarded_for event
      | Some request_context \<Rightarrow>
          and_then (py_in ''http'' request_context) (\<lambda>has_http.
            if has_http then
              and_then (py_subscript request_context ''http'') (\<lambda>http.
                py_get http ''sourceIp'' JNull)
            else
              and_then (py_in ''identity'' request_context) (\<lambda>has_identity.
                if has_identity then
                  and_then (py_subscript request_context ''identity'') (\<lambda>identity.
                    py_get identity ''sourceIp'' JNull)
                else forwarded_for event)))"

definition get_client_ip :: "dict \<Rightarrow> json" where
  "get_client_ip event = (case get_client_ip_try event of Inr ip \<Rightarrow> ip | Inl e \<Rightarrow> JNull)"

text \<open>\<^verbatim>\<open>validate_request\<close>: the body of its \<^verbatim>\<open>try\<close>, then the function. In
  \<^verbatim>\<open>not a and not b\<close> the second lookup runs only when the first value is false.\<close>

definition validate_request_try :: "dict \<Rightarrow> exn + (bool \<times> string)" where
  "validate_request_try event =
     (if map_of event ''requestContext'' = None then Inr (False, ''Request not from API Gateway'')
      else
        let request_context = dict_get event ''requestContext'' (JObj []) in
        and_then (py_get request_context ''http'' JNull) (\<lambda>http.
          if truthy http then Inr (True, [])
          else
            and_then (py_get request_context ''apiId'' JNull) (\<lambda>api_id.
              if truthy api_id then Inr (True, [])
              else Inr (False, ''Invalid API Gateway request context''))))"

definition validate_request :: "dict \<Rightarrow> bool \<times> string" where
  "validate_request event =
     (case validate_request_try event of
        Inr r \<Rightarrow> r
      | Inl e \<Rightarrow> (False, ''Error validating request''))"

text \<open>\<^verbatim>\<open>context.aws_request_id if context else 'local-test'\<close>\<close>

fun request_id :: "invocation_context \<Rightarrow> exn + string" where
  "request_id NoContext = Inr ''local-test''"
| "request_id (LambdaContext rid) = Inr rid"
| "request_id OtherObject = Inl AttributeError"

text \<open>Lines 102 to 104: the method and the path, added to the payload when the event
  has \<^verbatim>\<open>requestContext\<close> and that has \<^verbatim>\<open>http\<close>.\<close>

definition gateway_information :: "dict \<Rightarrow> exn + dict" where
  "gateway_information event =
     (case map_of event ''requestContext'' of
        None \<Rightarrow> Inr []
      | Some request_context \<Rightarrow>
          and_then (py_in ''http'' request_context) (\<lambda>has_http.
            if has_http then
              and_then (py_subscript request_context ''http'') (\<lambda>http.
              and_then (py_get http ''method'' JNull) (\<lambda>m.
              and_then (py_get http ''path'' JNull) (\<lambda>p.
                Inr [(''method'', m), (''path'', p)])))
            else Inr []))"

definition json_headers :: "(string \<times> string) list" where
  "json_headers = [(''Content-Type'', ''application/json'')]"

text \<open>The body of the handler's \<^verbatim>\<open>try\<close>.\<close>

definition extractor_try :: "dict \<Rightarrow> invocation_context \<Rightarrow> string \<Rightarrow> exn + response" where
  "extractor_try event ctx now =
     (case validate_request event of (is_valid, error_message) \<Rightarrow>
        if \<not> is_valid then
          Inr \<lparr>statusCode = 403, headers = Some json_headers,
               body = dumps (JObj [(''error'', JStr error_message),
                                   (''status'', JStr ''failed''),
                                   (''timestamp'', JStr now)])\<rparr>
        else
          let client_ip = get_client_ip event in
          if \<not> truthy client_ip then
            Inr \<lparr>statusCode = 400, headers = Some json_headers,
                 body = dumps (JObj [(''error'', JStr ''Could not determine client IP''),
                                     (''status'', JStr ''failed''),
                                     (''timestamp'', JStr now)])\<rparr>
          else
            and_then (request_id ctx) (\<lambda>rid.
            let response_data =
                  [(''message'', JStr ''Request processed successfully''),
                   (''client_ip'', client_ip),
                   (''timestamp'', JStr now),
                   (''request_id'', JStr rid),
                   (''status'', JStr ''success'')] in
            and_then (gateway_information event) (\<lambda>info.
              Inr \<lparr>statusCode = 200,
                   headers = Some [(''Content-Type'', ''application/json''),
                                   (''X-Custom-Header'', ''API Gateway Request'')],
                   body = dumps (JObj (response_data @ info))\<rparr>)))"

text \<open>\<^verbatim>\<open>lambda_handler\<close> of the IP extractor: any exception gives the 500 response.\<close>

definition extractor_lambda_handler :: "dict \<Rightarrow> invocation_context \<Rightarrow> string \<Rightarrow> response" where
  "extractor_lambda_handler event ctx now =
     (case extractor_try event ctx now of
        Inr r \<Rightarrow> r
      | Inl e \<Rightarrow>
          \<lparr>statusCode = 500, headers = Some json_headers,
           body = dumps (JObj [(''error'', JStr ''Internal server error''),
                               (''status'', JStr ''failed''),
                               (''timestamp'', JStr now)])\<rparr>)"

section \<open>Readings of the specification\<close>

text \<open>
  The conditions that the specification states in its own words, as predicates on an
  event, to be compared with what the code computes.
\<close>

text \<open>A value has a field \<open>k\<close> when it is a mapping with the key \<open>k\<close>; it has a
  sub-object \<open>k\<close> when the value under that key is itself a mapping.\<close>

definition has_field :: "json \<Rightarrow> string \<Rightarrow> bool" where
  "has_field v k = (case v of JObj d \<Rightarrow> map_of d k \<noteq> None | _ \<Rightarrow> False)"

definition has_sub_object :: "json \<Rightarrow> string \<Rightarrow> bool" where
  "has_sub_object v k =
     (case v of
        JObj d \<Rightarrow> (case map_of d k of Some (JObj h) \<Rightarrow> True | _ \<Rightarrow> False)
      | _ \<Rightarrow> False)"

text \<open>Following the specification of \<^verbatim>\<open>validate_request\<close>: it "fails when the event
  carries no request-context field at all, or when the request-context lacks both a
  modern http sub-object and a generic API identifier field".\<close>

definition spec_validation_fails :: "dict \<Rightarrow> bool" where
  "spec_validation_fails event =
     (case map_of event ''requestContext'' of
        None \<Rightarrow> True
      | Some request_context \<Rightarrow>
          \<not> has_sub_object request_context ''http'' \<and> \<not> has_field request_context ''apiId'')"

text \<open>The lookups of \<^verbatim>\<open>log_request_metrics\<close> succeed on an event whose
  \<^verbatim>\<open>requestContext\<close>, when present, is a mapping, and whose \<^verbatim>\<open>http\<close> entry in it, when
  present, is a mapping.\<close>

definition metrics_readable :: "dict \<Rightarrow> bool" where
  "metrics_readable event =
     (case dict_get event ''requestContext'' (JObj []) of
        JObj c \<Rightarrow> (case dict_get c ''http'' (JObj []) of JObj h \<Rightarrow> True | _ \<Rightarrow> False)
      | _ \<Rightarrow> False)"

text \<open>The age is numerically below 18 when \<^verbatim>\<open>int\<close> gives a number below 18.\<close>

definition below_18 :: "json \<Rightarrow> bool" where
  "below_18 age = (case py_int age of Inr a \<Rightarrow> a < 18 | Inl e \<Rightarrow> False)"

text \<open>\<^verbatim>\<open>query_params: Dict[str, str]\<close>, the declared type of the parameter of
  \<^verbatim>\<open>validate_parameters\<close>: a mapping whose values are strings, or absent.\<close>

definition string_parameters :: "json \<Rightarrow> bool" where
  "string_parameters q =
     (case q of
        JNull \<Rightarrow> True
      | JObj d \<Rightarrow> list_all (\<lambda>(k, v). case v of JStr s \<Rightarrow> True | _ \<Rightarrow> False) d
      | _ \<Rightarrow> False)"

text \<open>The text of the parameter \<open>k\<close>, empty when there is none.\<close>

definition parameter :: "json \<Rightarrow> string \<Rightarrow> string" where
  "parameter q k =
     (case q of
        JObj d \<Rightarrow> (case map_of d k of Some (JStr s) \<Rightarrow> s | _ \<Rightarrow> [])
      | _ \<Rightarrow> [])"

text \<open>The address that \<^verbatim>\<open>get_client_ip\<close> takes from a gateway container (the value
  under \<^verbatim>\<open>http\<close> or \<^verbatim>\<open>identity\<close>): its \<^verbatim>\<open>sourceIp\<close> entry when the container is a
  mapping that has one, absent otherwise. And the address it takes from the headers: the
  first comma-separated entry, trimmed, of the string under \<^verbatim>\<open>x-forwarded-for\<close> when the
  headers are a mapping that has one, absent otherwise.\<close>

definition source_address :: "json \<Rightarrow> json" where
  "source_address container =
     (case container of JObj d \<Rightarrow> dict_get d ''sourceIp'' JNull | _ \<Rightarrow> JNull)"

definition header_address :: "dict \<Rightarrow> json" where
  "header_address event =
     (case map_of event ''headers'' of
        Some (JObj hs) \<Rightarrow>
          (case map_of hs ''x-forwarded-for'' of
             Some (JStr s) \<Rightarrow> JStr (strip (takeWhile (\<lambda>c. c \<noteq> CHR '','') s))
           | _ \<Rightarrow> JNull)
      | _ \<Rightarrow> JNull)"

section \<open>Lemmas on the IP extractor\<close>

lemma and_then_Inl [simp]: "and_then (Inl e) f = Inl e"
  by (simp add: and_then_def)

lemma and_then_Inr [simp]: "and_then (Inr v) f = f v"
  by (simp add: and_then_def)

lemma first_split: "first (split sep s) = Inr (takeWhile (\<lambda>c. c \<noteq> sep) s)"
  by (induction s) (auto split: list.splits)

text \<open>\<^verbatim>\<open>validate_request\<close> without its exceptions.\<close>

lemma validate_request_cases:
  "validate_request event =
     (case map_of event ''requestContext'' of
        None \<Rightarrow> (False, ''Request not from API Gateway'')
      | Some (JObj c) \<Rightarrow>
          if truthy (dict_get c ''http'' JNull) \<or> truthy (dict_get c ''apiId'' JNull)
          then (True, []) else (False, ''Invalid API Gateway request context'')
      | Some _ \<Rightarrow> (False, ''Error validating request''))"
  by (simp add: validate_request_def validate_request_try_def dict_get_def Let_def
      and_then_def split: option.splits json.splits)

text \<open>The three stages of the handler.\<close>

lemma extractor_rejected:
  "\<not> fst (validate_request event) \<Longrightarrow>
   extractor_lambda_handler event ctx now =
     \<lparr>statusCode = 403, headers = Some json_headers,
      body = dumps (JObj [(''error'', JStr (snd (validate_request event))),
                          (''status'', JStr ''failed''),
                          (''timestamp'', JStr now)])\<rparr>"
  by (cases "validate_request event")
     (simp add: extractor_lambda_handler_def extractor_try_def)

lemma extractor_no_ip:
  "fst (validate_request event) \<Longrightarrow> \<not> truthy (get_client_ip event) \<Longrightarrow>
   extractor_lambda_handler event ctx now =
     \<lparr>statusCode = 400, headers = Some json_headers,
      body = dumps (JObj [(''error'', JStr ''Could not determine client IP''),
                          (''status'', JStr ''failed''),
                          (''timestamp'', JStr now)])\<rparr>"
  by (cases "validate_request event")
     (simp add: extractor_lambda_handler_def extractor_try_def Let_def)

lemma extractor_accepted:
  "fst (validate_request event) \<Longrightarrow> truthy (get_client_ip event) \<Longrightarrow>
   statusCode (extractor_lambda_handler event ctx now) \<in> {200, 500} \<and>
   headers (extractor_lambda_handler event ctx now) \<noteq> None \<and>
   (\<exists>payload. body (extractor_lambda_handler event ctx now) = dumps (JObj payload))"
  by (cases "validate_request event")
     (auto simp add: extractor_lambda_handler_def extractor_try_def Let_def and_then_def
       simp del: dumps.simps split: sum.splits)

text \<open>The header lookup of \<^verbatim>\<open>get_client_ip\<close> on a mapping of headers.\<close>

lemma forwarded_for_header:
  "map_of event ''headers'' = Some (JObj hs) \<Longrightarrow> map_of hs ''x-forwarded-for'' = Some (JStr s) \<Longrightarrow>
   forwarded_for event = Inr (JStr (strip (takeWhile (\<lambda>c. c \<noteq> CHR '','') s)))"
  by (cases hs) (auto simp add: forwarded_for_def dict_get_def first_split Let_def)

lemma forwarded_for_no_header:
  "map_of event ''headers'' = None \<or>
   (map_of event ''headers'' = Some (JObj hs) \<and> map_of hs ''x-forwarded-for'' = None) \<Longrightarrow>
   forwarded_for event = Inr JNull"
  by (auto simp add: forwarded_for_def dict_get_def Let_def)

lemma get_client_ip_no_gateway:
  "map_of event ''requestContext'' = None \<or>
   (map_of event ''requestContext'' = Some (JObj c) \<and> map_of c ''http'' = None \<and>
    map_of c ''identity'' = None) \<Longrightarrow>
   get_client_ip_try event = forwarded_for event"
  by (auto simp add: get_client_ip_try_def)

text \<open>\<^verbatim>\<open>get_client_ip\<close> without its exceptions, by the shape of the event.\<close>

lemma source_address_get:
  "(case py_get h ''sourceIp'' JNull of Inr ip \<Rightarrow> ip | Inl e \<Rightarrow> JNull) = source_address h"
  by (cases h) (simp_all add: source_address_def)

lemma forwarded_for_address:
  "(case forwarded_for event of Inr ip \<Rightarrow> ip | Inl e \<Rightarrow> JNull) = header_address event"
proof (cases "map_of event ''headers''")
  case None
  then show ?thesis by (simp add: forwarded_for_def header_address_def dict_get_def)
next
  case (Some hv)
  show ?thesis
  proof (cases hv)
    case (JObj hs)
    show ?thesis
    proof (cases "map_of hs ''x-forwarded-for''")
      case None
      with Some JObj show ?thesis
        by (simp add: forwarded_for_def header_address_def dict_get_def Let_def)
    next
      case (Some v)
      then have "hs \<noteq> []" by auto
      with Some \<open>map_of event ''headers'' = Some hv\<close> JObj show ?thesis
        by (cases v) (simp_all add: forwarded_for_def header_address_def dict_get_def Let_def first_split)
    qed
  qed (use Some in \<open>simp_all add: forwarded_for_def header_address_def dict_get_def Let_def and_then_def split: sum.splits\<close>)
qed

lemma get_client_ip_http:
  "map_of event ''requestContext'' = Some (JObj c) \<Longrightarrow> map_of c ''http'' = Some h \<Longrightarrow>
   get_client_ip event = source_address h"
  by (simp add: get_client_ip_def get_client_ip_try_def source_address_get)

lemma get_client_ip_identity:
  "map_of event ''requestContext'' = Some (JObj c) \<Longrightarrow> map_of c ''http'' = None \<Longrightarrow>
   map_of c ''identity'' = Some i \<Longrightarrow> get_client_ip event = source_address i"
  by (simp add: get_client_ip_def get_client_ip_try_def source_address_get)

lemma get_client_ip_headers:
  "map_of event ''requestContext'' = None \<or>
   (map_of event ''requestContext'' = Some (JObj c) \<and> map_of c ''http'' = None \<and>
    map_of c ''identity'' = None) \<Longrightarrow>
   get_client_ip event = header_address event"
  using get_client_ip_no_gateway [of event c]
  by (simp add: get_client_ip_def forwarded_for_address)

lemma get_client_ip_other_context:
  "map_of event ''requestContext'' = Some v \<Longrightarrow>
   get_client_ip event =
     (case v of
        JObj c \<Rightarrow> get_client_ip event
      | JStr s \<Rightarrow>
          if contains ''http'' s \<or> contains ''identity'' s then JNull else header_address event
      | JList xs \<Rightarrow>
          if JStr ''http'' \<in> set xs \<or> JStr ''identity'' \<in> set xs then JNull
          else header_address event
      | _ \<Rightarrow> JNull)"
  by (cases v)
     (simp_all add: get_client_ip_def get_client_ip_try_def forwarded_for_address)

lemma extractor_shape:
  "statusCode (extractor_lambda_handler event ctx now) \<in> {200, 400, 403, 500} \<and>
   headers (extractor_lambda_handler event ctx now) \<noteq> None \<and>
   (\<exists>payload. body (extractor_lambda_handler event ctx now) = dumps (JObj payload))"
proof (cases "fst (validate_request event)")
  case False
  then show ?thesis by (simp add: extractor_rejected del: dumps.simps) blast
next
  case True
  show ?thesis
  proof (cases "truthy (get_client_ip event)")
    case False
    with True show ?thesis by (simp add: extractor_no_ip del: dumps.simps) blast
  next
    case ip: True
    with True show ?thesis
      using extractor_accepted [of event ctx now] by auto
  qed
qed


section \<open>Lemmas on the Greeter\<close>

lemma log_request_metrics_readable:
  "(\<exists>m. log_request_metrics event = Inr m) \<longleftrightarrow> metrics_readable event"
  by (auto simp add: log_request_metrics_def metrics_readable_def Let_def and_then_def
      split: json.splits sum.splits)

lemma greeter_shape:
  "(statusCode (greeter_lambda_handler event ctx now) \<in> {400, 500} \<and>
    headers (greeter_lambda_handler event ctx now) = None
    \<or> statusCode (greeter_lambda_handler event ctx now) \<in> {200, 202} \<and>
      headers (greeter_lambda_handler event ctx now) =
        Some [(''Content-Type'', ''application/json''), (''X-Custom-Header'', ''Lambda Demo'')])
   \<and> (\<exists>payload. body (greeter_lambda_handler event ctx now) = dumps (JObj payload))"
  by (auto simp add: greeter_lambda_handler_def greeter_try_def Let_def and_then_def
      status_for_age_def simp del: dumps.simps split: sum.splits prod.splits if_splits)




text \<open>\<^verbatim>\<open>int\<close> reads back the decimal numeral of an integer, as \<open>str_of_int\<close>
  writes it, up to 4300 characters.\<close>

lemma digit_char_decimal:
  assumes "d < 10"
  shows "is_digit (digit_char d)" and "digit_val (digit_char d) = d"
    and "\<not> is_int_space (digit_char d)"
    and "digit_char d \<noteq> CHR ''-''" and "digit_char d \<noteq> CHR ''+''"
proof -
  from assms
  have "d = 0 \<or> d = 1 \<or> d = 2 \<or> d = 3 \<or> d = 4 \<or> d = 5 \<or> d = 6 \<or> d = 7 \<or> d = 8 \<or> d = 9"
    by arith
  then show "is_digit (digit_char d)" and "digit_val (digit_char d) = d"
    and "\<not> is_int_space (digit_char d)"
    and "digit_char d \<noteq> CHR ''-''" and "digit_char d \<noteq> CHR ''+''"
    by (auto simp add: digit_char_def is_digit_def digit_val_def is_int_space_def)
qed

lemma str_of_nat_not_empty: "str_of_nat n \<noteq> []"
  by (subst str_of_nat.simps) simp

lemma str_of_nat_digits: "c \<in> set (str_of_nat n) \<Longrightarrow> is_digit c"
proof (induction n rule: str_of_nat.induct)
  case (1 n)
  show ?case
  proof (cases "n < 10")
    case True
    with "1.prems" show ?thesis
      using digit_char_decimal(1) [of n] by (simp add: str_of_nat.simps [of n])
  next
    case False
    with "1.prems" "1.IH" show ?thesis
      using digit_char_decimal(1) [of "n mod 10"] by (auto simp add: str_of_nat.simps [of n])
  qed
qed

lemma digits_all_digits:
  "(\<And>c. c \<in> set xs \<Longrightarrow> is_digit c) \<Longrightarrow>
   digits acc b xs =
     (if xs = [] then (if b then Some acc else None)
      else Some (foldl (\<lambda>a c. 10 * a + digit_val c) acc xs))"
  by (induction xs arbitrary: acc b) auto

lemma value_str_of_nat: "foldl (\<lambda>a c. 10 * a + digit_val c) 0 (str_of_nat n) = n"
proof (induction n rule: str_of_nat.induct)
  case (1 n)
  show ?case
  proof (cases "n < 10")
    case True
    then show ?thesis
      using digit_char_decimal(2) [of n] by (simp add: str_of_nat.simps [of n])
  next
    case False
    with "1.IH" show ?thesis
      using digit_char_decimal(2) [of "n mod 10"] by (simp add: str_of_nat.simps [of n])
  qed
qed

lemma length_str_of_nat: "length (str_of_nat n) \<le> Suc n"
proof (induction n rule: str_of_nat.induct)
  case (1 n)
  show ?case
  proof (cases "n < 10")
    case True
    then show ?thesis by (simp add: str_of_nat.simps [of n])
  next
    case False
    with "1.IH" have "length (str_of_nat (n div 10)) \<le> Suc (n div 10)" by simp
    with False show ?thesis by (simp add: str_of_nat.simps [of n])
  qed
qed

lemma trim_digits:
  assumes "xs \<noteq> []" and "\<And>c. c \<in> set xs \<Longrightarrow> is_digit c"
    and that: "p = [] \<or> p = [CHR ''-'']"
  shows "rev (dropWhile is_int_space (rev (dropWhile is_int_space (p @ xs)))) = p @ xs"
proof -
  have ns: "\<And>c. is_digit c \<Longrightarrow> \<not> is_int_space c"
    by (auto simp add: is_digit_def is_int_space_def)
  have m: "\<not> is_int_space (CHR ''-'')"
    by (simp add: is_int_space_def)
  obtain y ys where xs: "xs = y # ys" using assms(1) by (cases xs) auto
  obtain z zs where r: "rev xs = z # zs" using assms(1) by (cases "rev xs") auto
  then have "z \<in> set xs" by (metis list.set_intros(1) set_rev)
  then have z: "\<not> is_int_space z" using assms(2) ns by blast
  have y: "\<not> is_int_space y" using assms(2) ns xs by auto
  have front: "dropWhile is_int_space (p @ xs) = p @ xs"
    using that y m xs by auto
  have "dropWhile is_int_space (rev (p @ xs)) = rev (p @ xs)"
    using r z by simp
  with front show ?thesis by simp
qed

lemma int_of_str_str_of_int:
  assumes "length (str_of_int i) \<le> 4300"
  shows "int_of_str (str_of_int i) = Some i"
proof -
  let ?n = "nat \<bar>i\<bar>"
  let ?xs = "str_of_nat ?n"
  let ?p = "if i < 0 then [CHR ''-''] else []"
  have s: "str_of_int i = ?p @ ?xs"
    by (simp add: str_of_int_def)
  have d: "\<And>c. c \<in> set ?xs \<Longrightarrow> is_digit c" by (rule str_of_nat_digits)
  have ne: "?xs \<noteq> []" by (rule str_of_nat_not_empty)
  have t: "rev (dropWhile is_int_space (rev (dropWhile is_int_space (?p @ ?xs)))) = ?p @ ?xs"
    using trim_digits [OF ne d, of ?p] by simp
  have "filter is_digit (?p @ ?xs) = ?xs"
    using d by (auto simp add: is_digit_def filter_id_conv)
  then have c: "length (filter is_digit (?p @ ?xs)) \<le> 4300"
    using assms s by (auto split: if_splits)
  have v: "digits 0 False ?xs = Some ?n"
    using digits_all_digits [of ?xs 0 False] d ne by (simp add: value_str_of_nat)
  obtain y ys where xs: "?xs = y # ys" using ne by (cases ?xs) auto
  then have "is_digit y" using d by (metis list.set_intros(1))
  then have y: "y \<noteq> CHR ''-''" "y \<noteq> CHR ''+''" by (auto simp add: is_digit_def)
  have "signed_digits (?p @ ?xs) = Some i"
  proof (cases "i < 0")
    case True
    then show ?thesis using v by (simp add: signed_digits_def)
  next
    case False
    then show ?thesis using v xs y by (simp add: signed_digits_def)
  qed
  then show ?thesis
    using t c by (simp add: int_of_str_def Let_def max_str_digits_def s)
qed

lemma int_of_str_small:
  assumes "0 \<le> i" and "i \<le> 150"
  shows "int_of_str (str_of_int i) = Some i"
proof -
  have "length (str_of_nat (nat i)) \<le> Suc (nat i)" by (rule length_str_of_nat)
  then have "length (str_of_int i) \<le> 4300"
    using assms by (simp add: str_of_int_def)
  then show ?thesis by (rule int_of_str_str_of_int)
qed

text \<open>\<^verbatim>\<open>int\<close> refuses a text of more than 4300 digits, wherever they stand.\<close>

lemma filter_dropWhile_disjoint:
  "(\<And>x. Q x \<Longrightarrow> \<not> P x) \<Longrightarrow> filter P (dropWhile Q xs) = filter P xs"
  by (induction xs) auto

lemma digits_of_trimmed:
  "filter is_digit (rev (dropWhile is_int_space (rev (dropWhile is_int_space s)))) =
   filter is_digit s"
proof -
  have d: "\<And>x. is_int_space x \<Longrightarrow> \<not> is_digit x"
    by (auto simp add: is_int_space_def is_digit_def)
  have "filter is_digit (rev (dropWhile is_int_space (rev (dropWhile is_int_space s)))) =
        rev (filter is_digit (dropWhile is_int_space (rev (dropWhile is_int_space s))))"
    by (simp add: rev_filter)
  also have "\<dots> = rev (filter is_digit (rev (dropWhile is_int_space s)))"
    by (simp add: filter_dropWhile_disjoint [OF d])
  also have "\<dots> = filter is_digit (dropWhile is_int_space s)"
    by (simp add: rev_filter)
  also have "\<dots> = filter is_digit s"
    by (simp add: filter_dropWhile_disjoint [OF d])
  finally show ?thesis .
qed

lemma int_of_str_too_long:
  "4300 < length (filter is_digit s) \<Longrightarrow> int_of_str s = None"
  by (simp add: int_of_str_def Let_def digits_of_trimmed max_str_digits_def)

text \<open>\<^verbatim>\<open>validate_parameters\<close> on string parameters raises nothing.\<close>

lemma string_parameters_get:
  assumes "string_parameters (JObj d)"
  shows "dict_get d k (JStr []) = JStr (parameter (JObj d) k)"
proof (cases "map_of d k")
  case None
  then show ?thesis by (simp add: dict_get_def parameter_def)
next
  case (Some v)
  then have "(k, v) \<in> set d" by (rule map_of_SomeD)
  with assms obtain s where "v = JStr s"
    by (auto simp add: string_parameters_def list_all_iff split: json.splits)
  with Some show ?thesis by (simp add: dict_get_def parameter_def)
qed

lemma validate_parameters_strings:
  assumes "string_parameters q"
  shows "validate_parameters q =
     Inr (if \<not> truthy q then (False, Some ''No query parameters provided ya dodo'')
          else if strip (parameter q ''name'') = [] then (False, Some ''Name parameter is required ya dodo'')
          else if parameter q ''age'' = [] then (True, None)
          else (case int_of_str (parameter q ''age'') of
                  None \<Rightarrow> (False, Some ''Age must be a valid number'')
                | Some a \<Rightarrow> if a < 0 \<or> a > 150 then (False, Some ''Age must be between 0 and 150'')
                            else (True, None)))"
proof (cases q)
  case (JObj d)
  with assms show ?thesis
    by (simp add: validate_parameters_def string_parameters_get split: option.splits)
qed (use assms in \<open>simp_all add: validate_parameters_def string_parameters_def\<close>)

text \<open>What a successful validation tells about the parameters, and the response that
  follows it.\<close>

lemma validate_parameters_valid:
  assumes "validate_parameters q = Inr (True, m)"
  obtains d name where "q = JObj d" and "map_of d ''name'' = Some (JStr name)"
    and "strip name \<noteq> []" and "m = None"
    and "\<not> truthy (dict_get d ''age'' JNull) \<or>
         (\<exists>a. py_int (dict_get d ''age'' JNull) = Inr a \<and> 0 \<le> a \<and> a \<le> 150)"
proof (cases q)
  case (JObj d)
  from assms JObj have ne: "d \<noteq> []"
    by (auto simp add: validate_parameters_def)
  from assms JObj ne obtain name where n: "dict_get d ''name'' (JStr []) = JStr name"
    by (cases "dict_get d ''name'' (JStr [])") (auto simp add: validate_parameters_def)
  from assms JObj ne n have s: "strip name \<noteq> []"
    by (auto simp add: validate_parameters_def split: if_splits)
  then have "name \<noteq> []" by (auto simp add: strip_def)
  with n have k: "map_of d ''name'' = Some (JStr name)"
    by (auto simp add: dict_get_def split: option.splits)
  from assms JObj ne n s have m: "m = None"
    by (auto simp add: validate_parameters_def split: if_splits sum.splits exn.splits)
  have eq: "truthy (dict_get d ''age'' (JStr [])) \<Longrightarrow>
            dict_get d ''age'' (JStr []) = dict_get d ''age'' JNull"
    by (auto simp add: dict_get_def split: option.splits)
  have "\<not> truthy (dict_get d ''age'' (JStr [])) \<or>
         (\<exists>a. py_int (dict_get d ''age'' (JStr [])) = Inr a \<and> 0 \<le> a \<and> a \<le> 150)"
    using assms JObj ne n s
    by (auto simp add: validate_parameters_def split: if_splits sum.splits exn.splits)
  then have "\<not> truthy (dict_get d ''age'' JNull) \<or>
         (\<exists>a. py_int (dict_get d ''age'' JNull) = Inr a \<and> 0 \<le> a \<and> a \<le> 150)"
    using eq by (auto simp add: dict_get_def split: option.splits)
  with JObj k s m show ?thesis by (rule that)
qed (use assms in \<open>auto simp add: validate_parameters_def split: if_splits\<close>)

lemma greeter_valid:
  assumes "validate_parameters (query_parameters event) = Inr (True, m)"
    and "metrics_readable event"
  shows "\<exists>d name. query_parameters event = JObj d \<and> map_of d ''name'' = Some (JStr name) \<and>
     greeter_lambda_handler event ctx now =
       \<lparr>statusCode =
          (if truthy (dict_get d ''age'' JNull) \<and> below_18 (dict_get d ''age'' JNull)
           then 202 else 200),
        headers = Some [(''Content-Type'', ''application/json''),
                        (''X-Custom-Header'', ''Lambda Demo'')],
        body = dumps (JObj [(''message'', JStr (''Hello '' @ name @ ''!'')),
                            (''age_provided'', dict_get d ''age'' JNull),
                            (''processed_at'', JStr now),
                            (''status'', JStr ''success'')])\<rparr>"
proof -
  from assms(1) obtain d name where q: "query_parameters event = JObj d"
    and n: "map_of d ''name'' = Some (JStr name)"
    and a: "\<not> truthy (dict_get d ''age'' JNull) \<or>
         (\<exists>a. py_int (dict_get d ''age'' JNull) = Inr a \<and> 0 \<le> a \<and> a \<le> 150)"
    by (rule validate_parameters_valid)
  from assms(2) obtain logged where l: "log_request_metrics event = Inr logged"
    using log_request_metrics_readable by blast
  have st: "status_for_age (dict_get d ''age'' JNull) =
      Inr (if truthy (dict_get d ''age'' JNull) \<and> below_18 (dict_get d ''age'' JNull)
           then 202 else 200)"
    using a by (auto simp add: status_for_age_def below_18_def)
  have "greeter_try event now =
      Inr \<lparr>statusCode =
          (if truthy (dict_get d ''age'' JNull) \<and> below_18 (dict_get d ''age'' JNull)
           then 202 else 200),
        headers = Some [(''Content-Type'', ''application/json''),
                        (''X-Custom-Header'', ''Lambda Demo'')],
        body = dumps (JObj [(''message'', JStr (''Hello '' @ name @ ''!'')),
                            (''age_provided'', dict_get d ''age'' JNull),
                            (''processed_at'', JStr now),
                            (''status'', JStr ''success'')])\<rparr>"
    using assms(1) q n l st
    by (simp add: greeter_try_def Let_def dict_get_def del: dumps.simps)
  then show ?thesis
    using q n by (simp add: greeter_lambda_handler_def del: dumps.simps)
qed

lemma greeter_rejected:
  assumes "validate_parameters (query_parameters event) = Inr (False, m)"
  shows "greeter_lambda_handler event ctx now =
     \<lparr>statusCode = 400, headers = None,
      body = dumps (JObj [(''error'', json_of_option m), (''status'', JStr ''failed'')])\<rparr>"
  using assms by (simp add: greeter_lambda_handler_def greeter_try_def Let_def del: dumps.simps)

lemma greeter_query_parameters:
  "map_of event ''queryStringParameters'' = Some (JObj d) \<Longrightarrow> map_of d k = Some v \<Longrightarrow>
   query_parameters event = JObj d"
  by (cases d) (auto simp add: query_parameters_def dict_get_def)

text \<open>The definitions that evaluate the Greeter on a concrete event.\<close>

lemmas greeter_eval =
  greeter_lambda_handler_def greeter_try_def query_parameters_def dict_get_def
  validate_parameters_def strip_def is_space_def int_of_str_def max_str_digits_def Let_def is_int_space_def
  signed_digits_def is_digit_def digit_val_def log_request_metrics_def status_for_age_def

section \<open>Properties of the IP extractor\<close>

text \<open>
  C2, as stated, fails. For the event
  \<^verbatim>\<open>{"requestContext": {"http": {}}, "headers": {"x-forwarded-for": "1.2.3.4, 5.6.7.8"}}\<close>
  the lookup raises nothing and the third attempt, the header, yields \<^verbatim>\<open>1.2.3.4\<close>; by
  the claim the result is then not absent. The code returns from the \<^verbatim>\<open>http\<close> branch
  with the missing field, so the result is absent.
\<close>

theorem get_client_ip_no_fallthrough_counterexample:
  "get_client_ip [(''requestContext'', JObj [(''http'', JObj [])]),
                  (''headers'', JObj [(''x-forwarded-for'', JStr ''1.2.3.4, 5.6.7.8'')])] = JNull
   \<and> get_client_ip_try [(''requestContext'', JObj [(''http'', JObj [])]),
                  (''headers'', JObj [(''x-forwarded-for'', JStr ''1.2.3.4, 5.6.7.8'')])] = Inr JNull
   \<and> forwarded_for [(''requestContext'', JObj [(''http'', JObj [])]),
                  (''headers'', JObj [(''x-forwarded-for'', JStr ''1.2.3.4, 5.6.7.8'')])] =
       Inr (JStr ''1.2.3.4'')"
  by (simp add: get_client_ip_def get_client_ip_try_def forwarded_for_def dict_get_def
      strip_def is_space_def)

text \<open>
  C2, amended. \<^verbatim>\<open>get_client_ip\<close> commits to the first gateway container whose key
  is present and does not fall through. When the request-context is a mapping with the
  key \<^verbatim>\<open>http\<close>, the result is the \<^verbatim>\<open>sourceIp\<close> entry of the value under \<^verbatim>\<open>http\<close>, and
  absent when that value has no such entry or is not a mapping, whatever \<^verbatim>\<open>identity\<close>
  and the headers hold. Otherwise, when it has the key \<^verbatim>\<open>identity\<close>, the result is the
  \<^verbatim>\<open>sourceIp\<close> entry of the value under \<^verbatim>\<open>identity\<close>, and absent when that value has no
  such entry or is not a mapping, whatever the headers hold. When the event has no
  request-context, or one that is a mapping with neither key, the result comes from the
  headers: the first comma-separated entry, trimmed of white space, of the string under
  \<^verbatim>\<open>x-forwarded-for\<close> when the headers are a mapping that has one, and absent otherwise.
  A request-context that is not a mapping makes the lookup raise, and the result is
  absent: always for \<^verbatim>\<open>None\<close>, a number or a boolean, and for a string or a list when it
  contains \<^verbatim>\<open>http\<close> or \<^verbatim>\<open>identity\<close>; a string or list that contains neither is passed
  over and the headers are read. For the header \<^verbatim>\<open>1.2.3.4, 5.6.7.8\<close> and no gateway
  context the result is \<^verbatim>\<open>1.2.3.4\<close>.
\<close>

theorem get_client_ip_first_container:
  "(map_of event ''requestContext'' = Some (JObj c) \<and> map_of c ''http'' = Some h \<longrightarrow>
      get_client_ip event = source_address h)
   \<and> (map_of event ''requestContext'' = Some (JObj c) \<and> map_of c ''http'' = None \<and>
       map_of c ''identity'' = Some i \<longrightarrow>
      get_client_ip event = source_address i)
   \<and> (map_of event ''requestContext'' = None \<or>
       (map_of event ''requestContext'' = Some (JObj c) \<and> map_of c ''http'' = None \<and>
        map_of c ''identity'' = None) \<longrightarrow>
      get_client_ip event = header_address event)
   \<and> (map_of event ''requestContext'' = Some (JStr s) \<longrightarrow>
      get_client_ip event =
        (if contains ''http'' s \<or> contains ''identity'' s then JNull else header_address event))
   \<and> (map_of event ''requestContext'' = Some (JList xs) \<longrightarrow>
      get_client_ip event =
        (if JStr ''http'' \<in> set xs \<or> JStr ''identity'' \<in> set xs then JNull
         else header_address event))
   \<and> (map_of event ''requestContext'' = Some JNull \<or>
       map_of event ''requestContext'' = Some (JBool b) \<or>
       map_of event ''requestContext'' = Some (JInt n) \<longrightarrow>
      get_client_ip event = JNull)
   \<and> get_client_ip [(''headers'', JObj [(''x-forwarded-for'', JStr ''1.2.3.4, 5.6.7.8'')])] =
       JStr ''1.2.3.4''"
proof -
  have a: "map_of event ''requestContext'' = Some (JObj c) \<and> map_of c ''http'' = Some h \<longrightarrow>
      get_client_ip event = source_address h"
    by (simp add: get_client_ip_http)
  have b: "map_of event ''requestContext'' = Some (JObj c) \<and> map_of c ''http'' = None \<and>
       map_of c ''identity'' = Some i \<longrightarrow>
      get_client_ip event = source_address i"
    by (simp add: get_client_ip_identity)
  have c: "map_of event ''requestContext'' = None \<or>
       (map_of event ''requestContext'' = Some (JObj c) \<and> map_of c ''http'' = None \<and>
        map_of c ''identity'' = None) \<longrightarrow>
      get_client_ip event = header_address event"
    using get_client_ip_headers [of event c] by blast
  have d: "map_of event ''requestContext'' = Some (JStr s) \<longrightarrow>
      get_client_ip event =
        (if contains ''http'' s \<or> contains ''identity'' s then JNull else header_address event)"
    using get_client_ip_other_context [of event "JStr s"] by simp
  have e: "map_of event ''requestContext'' = Some (JList xs) \<longrightarrow>
      get_client_ip event =
        (if JStr ''http'' \<in> set xs \<or> JStr ''identity'' \<in> set xs then JNull
         else header_address event)"
    using get_client_ip_other_context [of event "JList xs"] by simp
  have f: "map_of event ''requestContext'' = Some JNull \<or>
       map_of event ''requestContext'' = Some (JBool b) \<or>
       map_of event ''requestContext'' = Some (JInt n) \<longrightarrow>
      get_client_ip event = JNull"
    using get_client_ip_other_context [of event JNull]
      get_client_ip_other_context [of event "JBool b"]
      get_client_ip_other_context [of event "JInt n"]
    by auto
  have g: "get_client_ip [(''headers'', JObj [(''x-forwarded-for'', JStr ''1.2.3.4, 5.6.7.8'')])] =
       JStr ''1.2.3.4''"
    by (simp add: get_client_ip_def get_client_ip_try_def forwarded_for_def dict_get_def
        strip_def is_space_def)
  from a b c d e f g show ?thesis by blast
qed

theorem get_client_ip_first_container_witness:
  "get_client_ip [(''requestContext'', JObj [(''http'', JObj [(''sourceIp'', JStr ''10.0.0.1'')]),
                                             (''identity'', JObj [(''sourceIp'', JStr ''10.0.0.2'')])]),
                  (''headers'', JObj [(''x-forwarded-for'', JStr ''10.0.0.3'')])] = JStr ''10.0.0.1''
   \<and> get_client_ip [(''requestContext'', JObj [(''http'', JNull),
                                             (''identity'', JObj [(''sourceIp'', JStr ''10.0.0.2'')])]),
                  (''headers'', JObj [(''x-forwarded-for'', JStr ''10.0.0.3'')])] = JNull
   \<and> get_client_ip [(''requestContext'', JObj [(''identity'', JObj [(''sourceIp'', JStr ''10.0.0.2'')])]),
                  (''headers'', JObj [(''x-forwarded-for'', JStr ''10.0.0.3'')])] = JStr ''10.0.0.2''
   \<and> get_client_ip [(''requestContext'', JObj [(''identity'', JStr ''10.0.0.2'')]),
                  (''headers'', JObj [(''x-forwarded-for'', JStr ''10.0.0.3'')])] = JNull
   \<and> get_client_ip [(''requestContext'', JObj [(''apiId'', JStr ''abc123'')]),
                  (''headers'', JObj [(''x-forwarded-for'', JStr '' 10.0.0.3 ,10.0.0.4'')])] =
       JStr ''10.0.0.3''
   \<and> get_client_ip [(''headers'', JObj [(''X-Forwarded-For'', JStr ''10.0.0.3'')])] = JNull
   \<and> get_client_ip [(''requestContext'', JStr ''http''),
                  (''headers'', JObj [(''x-forwarded-for'', JStr ''10.0.0.3'')])] = JNull
   \<and> get_client_ip [(''requestContext'', JList [JStr ''rest'']),
                  (''headers'', JObj [(''x-forwarded-for'', JStr ''10.0.0.3'')])] = JStr ''10.0.0.3''
   \<and> get_client_ip [(''requestContext'', JNull),
                  (''headers'', JObj [(''x-forwarded-for'', JStr ''10.0.0.3'')])] = JNull"
proof -
  let ?h = "JObj [(''sourceIp'', JStr ''10.0.0.1'')]"
  let ?i = "JObj [(''sourceIp'', JStr ''10.0.0.2'')]"
  let ?hs = "JObj [(''x-forwarded-for'', JStr ''10.0.0.3'')]"
  let ?c1 = "[(''http'', ?h), (''identity'', ?i)]"
  let ?e1 = "[(''requestContext'', JObj ?c1), (''headers'', ?hs)]"
  let ?c1n = "[(''http'', JNull), (''identity'', ?i)]"
  let ?e1n = "[(''requestContext'', JObj ?c1n), (''headers'', ?hs)]"
  let ?c2 = "[(''identity'', ?i)]"
  let ?e2 = "[(''requestContext'', JObj ?c2), (''headers'', ?hs)]"
  let ?c2s = "[(''identity'', JStr ''10.0.0.2'')]"
  let ?e2s = "[(''requestContext'', JObj ?c2s), (''headers'', ?hs)]"
  let ?c3 = "[(''apiId'', JStr ''abc123'')]"
  let ?e3 = "[(''requestContext'', JObj ?c3),
              (''headers'', JObj [(''x-forwarded-for'', JStr '' 10.0.0.3 ,10.0.0.4'')])]"
  let ?e4 = "[(''headers'', JObj [(''X-Forwarded-For'', JStr ''10.0.0.3'')])]"
  let ?e5 = "[(''requestContext'', JStr ''http''), (''headers'', ?hs)]"
  let ?e6 = "[(''requestContext'', JList [JStr ''rest'']), (''headers'', ?hs)]"
  let ?e7 = "[(''requestContext'', JNull), (''headers'', ?hs)]"
  note ev = source_address_def header_address_def dict_get_def strip_def is_space_def
  have "get_client_ip ?e1 = JStr ''10.0.0.1''"
    using get_client_ip_first_container [of ?e1 ?c1 ?h] by (simp add: ev)
  moreover have "get_client_ip ?e1n = JNull"
    using get_client_ip_first_container [of ?e1n ?c1n JNull] by (simp add: ev)
  moreover have "get_client_ip ?e2 = JStr ''10.0.0.2''"
    using get_client_ip_first_container [of ?e2 ?c2 _ ?i] by (simp add: ev)
  moreover have "get_client_ip ?e2s = JNull"
    using get_client_ip_first_container [of ?e2s ?c2s _ "JStr ''10.0.0.2''"] by (simp add: ev)
  moreover have "get_client_ip ?e3 = JStr ''10.0.0.3''"
    using get_client_ip_first_container [of ?e3 ?c3] by (simp add: ev)
  moreover have "get_client_ip ?e4 = JNull"
    using get_client_ip_first_container [of ?e4] by (simp add: ev)
  moreover have "get_client_ip ?e5 = JNull"
    using get_client_ip_first_container [of ?e5 _ _ _ "''http''"] by (simp add: ev)
  moreover have "get_client_ip ?e6 = JStr ''10.0.0.3''"
    using get_client_ip_first_container [of ?e6 _ _ _ _ "[JStr ''rest'']"] by (simp add: ev)
  moreover have "get_client_ip ?e7 = JNull"
    using get_client_ip_first_container [of ?e7] by (simp add: ev)
  ultimately show ?thesis by simp
qed

text \<open>
  C4, as stated, fails. The event \<^verbatim>\<open>{"requestContext": {"http": {}}}\<close> carries a
  request-context with an http sub-object, so by the claim validation succeeds; the code
  tests the truth value of the entry, the empty mapping is false, and the request is
  rejected with status 403.
\<close>

theorem validate_request_empty_http_counterexample:
  "\<not> spec_validation_fails [(''requestContext'', JObj [(''http'', JObj [])])]
   \<and> validate_request [(''requestContext'', JObj [(''http'', JObj [])])] =
       (False, ''Invalid API Gateway request context'')
   \<and> statusCode (extractor_lambda_handler [(''requestContext'', JObj [(''http'', JObj [])])]
        NoContext ''2024-05-01T10:00:00'') = 403"
  by (simp add: spec_validation_fails_def has_sub_object_def has_field_def
      extractor_lambda_handler_def extractor_try_def validate_request_def
      validate_request_try_def dict_get_def)

text \<open>
  C4, amended. \<^verbatim>\<open>validate_request\<close> succeeds, with an empty error string, exactly
  when the event's request-context is a mapping in which the \<^verbatim>\<open>http\<close> entry or the
  \<^verbatim>\<open>apiId\<close> entry has a true value (not missing, \<^verbatim>\<open>None\<close>, empty, zero or \<^verbatim>\<open>False\<close>).
  It fails for every other event: with the message \<^verbatim>\<open>Request not from API Gateway\<close> when
  the event has no request-context field, with \<^verbatim>\<open>Invalid API Gateway request context\<close>
  when the request-context is a mapping in which neither entry has a true value, and with
  \<^verbatim>\<open>Error validating request\<close> when the request-context is not a mapping. The handler
  returns status 403 exactly when validation fails, and then the body carries the
  validation error message and the status \<^verbatim>\<open>failed\<close>.
\<close>

theorem validate_request_rejects:
  "(fst (validate_request event) \<longleftrightarrow>
      (\<exists>c. map_of event ''requestContext'' = Some (JObj c) \<and>
           (truthy (dict_get c ''http'' JNull) \<or> truthy (dict_get c ''apiId'' JNull))))
   \<and> (fst (validate_request event) \<longrightarrow> snd (validate_request event) = [])
   \<and> (map_of event ''requestContext'' = None \<longrightarrow>
        validate_request event = (False, ''Request not from API Gateway''))
   \<and> (map_of event ''requestContext'' = Some (JObj d) \<and>
       \<not> truthy (dict_get d ''http'' JNull) \<and> \<not> truthy (dict_get d ''apiId'' JNull) \<longrightarrow>
        validate_request event = (False, ''Invalid API Gateway request context''))
   \<and> (map_of event ''requestContext'' = Some v \<and> (\<forall>c. v \<noteq> JObj c) \<longrightarrow>
        validate_request event = (False, ''Error validating request''))
   \<and> (map_of event ''requestContext'' = Some (JObj d) \<and>
       (truthy (dict_get d ''http'' JNull) \<or> truthy (dict_get d ''apiId'' JNull)) \<longrightarrow>
        validate_request event = (True, []))
   \<and> (statusCode (extractor_lambda_handler event ctx now) = 403 \<longleftrightarrow>
        \<not> fst (validate_request event))
   \<and> (\<not> fst (validate_request event) \<longrightarrow>
        extractor_lambda_handler event ctx now =
          \<lparr>statusCode = 403, headers = Some [(''Content-Type'', ''application/json'')],
           body = dumps (JObj [(''error'', JStr (snd (validate_request event))),
                               (''status'', JStr ''failed''),
                               (''timestamp'', JStr now)])\<rparr>)"
proof -
  have a: "fst (validate_request event) \<longleftrightarrow>
      (\<exists>c. map_of event ''requestContext'' = Some (JObj c) \<and>
           (truthy (dict_get c ''http'' JNull) \<or> truthy (dict_get c ''apiId'' JNull)))"
    by (simp add: validate_request_cases split: option.splits json.splits)
  have b: "fst (validate_request event) \<longrightarrow> snd (validate_request event) = []"
    by (simp add: validate_request_cases split: option.splits json.splits)
  have c: "map_of event ''requestContext'' = None \<longrightarrow>
        validate_request event = (False, ''Request not from API Gateway'')"
    by (simp add: validate_request_cases)
  have m1: "map_of event ''requestContext'' = Some (JObj d) \<and>
       \<not> truthy (dict_get d ''http'' JNull) \<and> \<not> truthy (dict_get d ''apiId'' JNull) \<longrightarrow>
        validate_request event = (False, ''Invalid API Gateway request context'')"
    by (simp add: validate_request_cases)
  have m2: "map_of event ''requestContext'' = Some v \<and> (\<forall>c. v \<noteq> JObj c) \<longrightarrow>
        validate_request event = (False, ''Error validating request'')"
    by (cases v) (simp_all add: validate_request_cases)
  have m3: "map_of event ''requestContext'' = Some (JObj d) \<and>
       (truthy (dict_get d ''http'' JNull) \<or> truthy (dict_get d ''apiId'' JNull)) \<longrightarrow>
        validate_request event = (True, [])"
    by (auto simp add: validate_request_cases)
  have d: "statusCode (extractor_lambda_handler event ctx now) = 403 \<longleftrightarrow>
        \<not> fst (validate_request event)"
  proof (cases "fst (validate_request event)")
    case False
    then show ?thesis by (simp add: extractor_rejected)
  next
    case True
    then show ?thesis
      using extractor_no_ip [of event ctx now] extractor_accepted [of event ctx now]
      by (cases "truthy (get_client_ip event)") auto
  qed
  have e: "\<not> fst (validate_request event) \<longrightarrow>
        extractor_lambda_handler event ctx now =
          \<lparr>statusCode = 403, headers = Some [(''Content-Type'', ''application/json'')],
           body = dumps (JObj [(''error'', JStr (snd (validate_request event))),
                               (''status'', JStr ''failed''),
                               (''timestamp'', JStr now)])\<rparr>"
    by (simp add: extractor_rejected json_headers_def)
  from a b c m1 m2 m3 d e show ?thesis by blast
qed

theorem validate_request_rejects_witness:
  \<open>validate_request [(''requestContext'', JObj [(''identity'', JObj [])])] =
      (False, ''Invalid API Gateway request context'')
   \<and> extractor_lambda_handler [(''requestContext'', JObj [(''identity'', JObj [])])]
        NoContext ''2024-05-01T10:00:00'' =
      \<lparr>statusCode = 403, headers = Some [(''Content-Type'', ''application/json'')],
       body = ''{"error": "Invalid API Gateway request context", "status": "failed", "timestamp": "2024-05-01T10:00:00"}''\<rparr>
   \<and> validate_request [(''requestContext'', JNull)] = (False, ''Error validating request'')
   \<and> extractor_lambda_handler [(''requestContext'', JNull)] NoContext ''2024-05-01T10:00:00'' =
      \<lparr>statusCode = 403, headers = Some [(''Content-Type'', ''application/json'')],
       body = ''{"error": "Error validating request", "status": "failed", "timestamp": "2024-05-01T10:00:00"}''\<rparr>
   \<and> validate_request [] = (False, ''Request not from API Gateway'')
   \<and> extractor_lambda_handler [] NoContext ''2024-05-01T10:00:00'' =
      \<lparr>statusCode = 403, headers = Some [(''Content-Type'', ''application/json'')],
       body = ''{"error": "Request not from API Gateway", "status": "failed", "timestamp": "2024-05-01T10:00:00"}''\<rparr>
   \<and> validate_request [(''requestContext'', JObj [(''apiId'', JStr ''abc123'')])] = (True, [])
   \<and> statusCode (extractor_lambda_handler [(''requestContext'', JObj [(''apiId'', JStr ''abc123'')])]
        NoContext ''2024-05-01T10:00:00'') \<noteq> 403\<close>
proof -
  let ?cb = "[(''identity'', JObj [])]"
  let ?bad = "[(''requestContext'', JObj ?cb)]"
  let ?null = "[(''requestContext'', JNull)]"
  let ?cg = "[(''apiId'', JStr ''abc123'')]"
  let ?good = "[(''requestContext'', JObj ?cg)]"
  let ?now = "''2024-05-01T10:00:00''"
  have bad: "validate_request ?bad = (False, ''Invalid API Gateway request context'')"
    using validate_request_rejects [of ?bad ?cb _ NoContext ?now] by (simp add: dict_get_def)
  have null: "validate_request ?null = (False, ''Error validating request'')"
    using validate_request_rejects [of ?null _ JNull NoContext ?now] by simp
  have none: "validate_request [] = (False, ''Request not from API Gateway'')"
    using validate_request_rejects [of "[]" _ _ NoContext ?now] by simp
  have good: "validate_request ?good = (True, [])"
    using validate_request_rejects [of ?good ?cg _ NoContext ?now] by (simp add: dict_get_def)
  have "extractor_lambda_handler ?bad NoContext ?now =
      \<lparr>statusCode = 403, headers = Some [(''Content-Type'', ''application/json'')],
       body = ''{\"error\": \"Invalid API Gateway request context\", \"status\": \"failed\", \"timestamp\": \"2024-05-01T10:00:00\"}''\<rparr>"
    using bad validate_request_rejects [of ?bad _ _ NoContext ?now]
    by (simp add: quote_def escape_char_def)
  moreover have "extractor_lambda_handler ?null NoContext ?now =
      \<lparr>statusCode = 403, headers = Some [(''Content-Type'', ''application/json'')],
       body = ''{\"error\": \"Error validating request\", \"status\": \"failed\", \"timestamp\": \"2024-05-01T10:00:00\"}''\<rparr>"
    using null validate_request_rejects [of ?null _ _ NoContext ?now]
    by (simp add: quote_def escape_char_def)
  moreover have "extractor_lambda_handler [] NoContext ?now =
      \<lparr>statusCode = 403, headers = Some [(''Content-Type'', ''application/json'')],
       body = ''{\"error\": \"Request not from API Gateway\", \"status\": \"failed\", \"timestamp\": \"2024-05-01T10:00:00\"}''\<rparr>"
    using none validate_request_rejects [of "[]" _ _ NoContext ?now]
    by (simp add: quote_def escape_char_def)
  moreover have "statusCode (extractor_lambda_handler ?good NoContext ?now) \<noteq> 403"
    using good validate_request_rejects [of ?good _ _ NoContext ?now] by simp
  ultimately show ?thesis
    using bad null none good by simp
qed

text \<open>
  C9, as stated, fails. For the event \<^verbatim>\<open>{"headers": {"X-Forwarded-For": "1.2.3.4"}}\<close>,
  which has no request-context, \<^verbatim>\<open>get_client_ip\<close> returns absent, as claimed, but the
  handler does not return 400: validation runs first and rejects the event with 403.
\<close>

theorem extractor_header_case_counterexample:
  "map_of [(''headers'', JObj [(''X-Forwarded-For'', JStr ''1.2.3.4'')])] ''requestContext'' = None
   \<and> get_client_ip [(''headers'', JObj [(''X-Forwarded-For'', JStr ''1.2.3.4'')])] = JNull
   \<and> statusCode (extractor_lambda_handler [(''headers'', JObj [(''X-Forwarded-For'', JStr ''1.2.3.4'')])]
        NoContext ''2024-05-01T10:00:00'') = 403
   \<and> statusCode (extractor_lambda_handler [(''headers'', JObj [(''X-Forwarded-For'', JStr ''1.2.3.4'')])]
        NoContext ''2024-05-01T10:00:00'') \<noteq> 400"
  by (simp add: get_client_ip_def get_client_ip_try_def forwarded_for_def dict_get_def
      extractor_lambda_handler_def extractor_try_def validate_request_def validate_request_try_def)

text \<open>
  C9, amended. \<^verbatim>\<open>get_client_ip\<close> reads the forwarded-for header only under the
  lower-case key \<^verbatim>\<open>x-forwarded-for\<close>. For every event with no request-context whose
  headers mapping has no such key, \<^verbatim>\<open>get_client_ip\<close> returns absent and the handler
  returns 403, since validation rejects the event before the address is looked up. The
  400 response is what the handler returns when the event passes validation through a
  true \<^verbatim>\<open>apiId\<close>, its request-context has neither \<^verbatim>\<open>http\<close> nor \<^verbatim>\<open>identity\<close>, and the
  headers mapping has no key \<^verbatim>\<open>x-forwarded-for\<close>.
\<close>

theorem extractor_header_case_sensitive:
  "(map_of event ''requestContext'' = None \<and> map_of event ''headers'' = Some (JObj hs) \<and>
    map_of hs ''x-forwarded-for'' = None \<longrightarrow>
      get_client_ip event = JNull \<and>
      extractor_lambda_handler event ctx now =
        \<lparr>statusCode = 403, headers = Some [(''Content-Type'', ''application/json'')],
         body = dumps (JObj [(''error'', JStr ''Request not from API Gateway''),
                             (''status'', JStr ''failed''),
                             (''timestamp'', JStr now)])\<rparr>)
   \<and> (map_of event ''requestContext'' = Some (JObj c) \<and> map_of c ''http'' = None \<and>
       map_of c ''identity'' = None \<and> truthy (dict_get c ''apiId'' JNull) \<and>
       map_of event ''headers'' = Some (JObj hs) \<and> map_of hs ''x-forwarded-for'' = None \<longrightarrow>
      get_client_ip event = JNull \<and>
      extractor_lambda_handler event ctx now =
        \<lparr>statusCode = 400, headers = Some [(''Content-Type'', ''application/json'')],
         body = dumps (JObj [(''error'', JStr ''Could not determine client IP''),
                             (''status'', JStr ''failed''),
                             (''timestamp'', JStr now)])\<rparr>)"
proof -
  have a: "get_client_ip event = JNull"
    if "map_of event ''requestContext'' = None \<or>
        (map_of event ''requestContext'' = Some (JObj c) \<and> map_of c ''http'' = None \<and>
         map_of c ''identity'' = None)"
      and "map_of event ''headers'' = Some (JObj hs)" and "map_of hs ''x-forwarded-for'' = None"
    using that get_client_ip_no_gateway [of event c] forwarded_for_no_header [of event hs]
    by (auto simp add: get_client_ip_def)
  have b: "extractor_lambda_handler event ctx now =
        \<lparr>statusCode = 403, headers = Some [(''Content-Type'', ''application/json'')],
         body = dumps (JObj [(''error'', JStr ''Request not from API Gateway''),
                             (''status'', JStr ''failed''),
                             (''timestamp'', JStr now)])\<rparr>"
    if "map_of event ''requestContext'' = None"
  proof -
    have "validate_request event = (False, ''Request not from API Gateway'')"
      using that by (simp add: validate_request_cases)
    then show ?thesis
      using extractor_rejected [of event ctx now] by (simp add: json_headers_def)
  qed
  have c: "extractor_lambda_handler event ctx now =
        \<lparr>statusCode = 400, headers = Some [(''Content-Type'', ''application/json'')],
         body = dumps (JObj [(''error'', JStr ''Could not determine client IP''),
                             (''status'', JStr ''failed''),
                             (''timestamp'', JStr now)])\<rparr>"
    if "map_of event ''requestContext'' = Some (JObj c)" and "map_of c ''http'' = None"
      and "map_of c ''identity'' = None" and "truthy (dict_get c ''apiId'' JNull)"
      and "map_of event ''headers'' = Some (JObj hs)" and "map_of hs ''x-forwarded-for'' = None"
  proof -
    have "fst (validate_request event)"
      using that by (simp add: validate_request_cases)
    moreover have "\<not> truthy (get_client_ip event)"
      using a that by simp
    ultimately show ?thesis
      using extractor_no_ip [of event ctx now] by (simp add: json_headers_def)
  qed
  from a b c show ?thesis by blast
qed

theorem extractor_header_case_sensitive_witness:
  \<open>extractor_lambda_handler [(''headers'', JObj [(''X-Forwarded-For'', JStr ''1.2.3.4'')])]
      NoContext ''2024-05-01T10:00:00'' =
     \<lparr>statusCode = 403, headers = Some [(''Content-Type'', ''application/json'')],
      body = ''{"error": "Request not from API Gateway", "status": "failed", "timestamp": "2024-05-01T10:00:00"}''\<rparr>
   \<and> get_client_ip [(''requestContext'', JObj [(''apiId'', JStr ''abc123'')]),
                     (''headers'', JObj [(''X-Forwarded-For'', JStr ''1.2.3.4'')])] = JNull
   \<and> extractor_lambda_handler [(''requestContext'', JObj [(''apiId'', JStr ''abc123'')]),
                     (''headers'', JObj [(''X-Forwarded-For'', JStr ''1.2.3.4'')])]
      NoContext ''2024-05-01T10:00:00'' =
     \<lparr>statusCode = 400, headers = Some [(''Content-Type'', ''application/json'')],
      body = ''{"error": "Could not determine client IP", "status": "failed", "timestamp": "2024-05-01T10:00:00"}''\<rparr>\<close>
proof -
  let ?hs = "[(''X-Forwarded-For'', JStr ''1.2.3.4'')]"
  let ?c = "[(''apiId'', JStr ''abc123'')]"
  let ?e1 = "[(''headers'', JObj ?hs)]"
  let ?e2 = "[(''requestContext'', JObj ?c), (''headers'', JObj ?hs)]"
  let ?now = "''2024-05-01T10:00:00''"
  show ?thesis
    using extractor_header_case_sensitive [of ?e1 ?hs NoContext ?now]
      extractor_header_case_sensitive [of ?e2 ?hs NoContext ?now ?c]
    by (simp add: dict_get_def quote_def escape_char_def)
qed

text \<open>
  C10. In the IP extractor an extracted client address that is the empty string is
  treated as an absent one: for every event that passes validation and whose extracted
  address is the empty string (or is absent), for every invocation context and clock
  reading, the handler returns status 400 with the error
  \<^verbatim>\<open>Could not determine client IP\<close> and the status \<^verbatim>\<open>failed\<close>, not a 200 response.
\<close>

theorem extractor_empty_ip_400:
  assumes "fst (validate_request event)"
    and "get_client_ip event = JStr [] \<or> get_client_ip event = JNull"
  shows "extractor_lambda_handler event ctx now =
           \<lparr>statusCode = 400, headers = Some [(''Content-Type'', ''application/json'')],
            body = dumps (JObj [(''error'', JStr ''Could not determine client IP''),
                                (''status'', JStr ''failed''),
                                (''timestamp'', JStr now)])\<rparr>"
proof -
  obtain msg where v: "validate_request event = (True, msg)"
    using assms(1) by (cases "validate_request event") auto
  have "\<not> truthy (get_client_ip event)"
    using assms(2) by auto
  then have "extractor_try event ctx now =
           Inr \<lparr>statusCode = 400, headers = Some json_headers,
            body = dumps (JObj [(''error'', JStr ''Could not determine client IP''),
                                (''status'', JStr ''failed''),
                                (''timestamp'', JStr now)])\<rparr>"
    unfolding extractor_try_def using v by (simp add: Let_def)
  then show ?thesis
    by (simp add: extractor_lambda_handler_def json_headers_def)
qed

theorem extractor_empty_ip_400_witness:
  \<open>fst (validate_request [(''requestContext'', JObj [(''http'', JObj [(''sourceIp'', JStr [])])])])
   \<and> get_client_ip [(''requestContext'', JObj [(''http'', JObj [(''sourceIp'', JStr [])])])] = JStr []
   \<and> extractor_lambda_handler [(''requestContext'', JObj [(''http'', JObj [(''sourceIp'', JStr [])])])]
        (LambdaContext ''r-1'') ''2024-05-01T10:00:00'' =
      \<lparr>statusCode = 400, headers = Some [(''Content-Type'', ''application/json'')],
       body = ''{"error": "Could not determine client IP", "status": "failed", "timestamp": "2024-05-01T10:00:00"}''\<rparr>\<close>
proof -
  let ?ev = "[(''requestContext'', JObj [(''http'', JObj [(''sourceIp'', JStr [])])])]"
  have v: "fst (validate_request ?ev)"
    by (simp add: validate_request_def validate_request_try_def dict_get_def)
  have ip: "get_client_ip ?ev = JStr []"
    by (simp add: get_client_ip_def get_client_ip_try_def dict_get_def)
  show ?thesis
    using v ip extractor_empty_ip_400 [OF v disjI1 [OF ip], of "LambdaContext ''r-1''" "''2024-05-01T10:00:00''"]
    by (simp add: quote_def escape_char_def)
qed

section \<open>Properties of the Greeter\<close>

text \<open>
  C5. For every mapping of query parameters to strings (or absent parameters),
  \<^verbatim>\<open>validate_parameters\<close> raises nothing and: fails with the "no query parameters"
  message when the parameters are empty or absent; otherwise fails with the "name is
  required" message when the trimmed \<^verbatim>\<open>name\<close> is empty; otherwise, when \<^verbatim>\<open>age\<close> is present
  and not empty, fails with the "valid number" message when it does not parse as an
  integer (as it does not when it has more than 4300 digits) and with the "between 0 and
  150" message when the integer is outside 0..150; and succeeds in every other case. In
  particular the decimal numeral of an integer from 0 to 150 is accepted, and that of any
  other integer gets the "between 0 and 150" message.
  Every failure gives the handler's 400 response with the message;
  \<^verbatim>\<open>{"name": "Ada", "age": "200"}\<close> is rejected so.
\<close>

theorem validate_parameters_spec:
  assumes "string_parameters q"
  shows "(q = JNull \<or> q = JObj [] \<longrightarrow>
            validate_parameters q = Inr (False, Some ''No query parameters provided ya dodo''))
     \<and> (q \<noteq> JNull \<and> q \<noteq> JObj [] \<and> strip (parameter q ''name'') = [] \<longrightarrow>
            validate_parameters q = Inr (False, Some ''Name parameter is required ya dodo''))
     \<and> (q \<noteq> JNull \<and> q \<noteq> JObj [] \<and> strip (parameter q ''name'') \<noteq> [] \<and>
         parameter q ''age'' \<noteq> [] \<and> int_of_str (parameter q ''age'') = None \<longrightarrow>
            validate_parameters q = Inr (False, Some ''Age must be a valid number''))
     \<and> (q \<noteq> JNull \<and> q \<noteq> JObj [] \<and> strip (parameter q ''name'') \<noteq> [] \<and>
         4300 < length (filter is_digit (parameter q ''age'')) \<longrightarrow>
            validate_parameters q = Inr (False, Some ''Age must be a valid number''))
     \<and> (q \<noteq> JNull \<and> q \<noteq> JObj [] \<and> strip (parameter q ''name'') \<noteq> [] \<and>
         parameter q ''age'' \<noteq> [] \<and> int_of_str (parameter q ''age'') = Some a \<and>
         (a < 0 \<or> 150 < a) \<longrightarrow>
            validate_parameters q = Inr (False, Some ''Age must be between 0 and 150''))
     \<and> (q \<noteq> JNull \<and> q \<noteq> JObj [] \<and> strip (parameter q ''name'') \<noteq> [] \<and>
         (parameter q ''age'' = [] \<or>
          int_of_str (parameter q ''age'') = Some a \<and> 0 \<le> a \<and> a \<le> 150) \<longrightarrow>
            validate_parameters q = Inr (True, None))
     \<and> (q \<noteq> JNull \<and> q \<noteq> JObj [] \<and> strip (parameter q ''name'') \<noteq> [] \<and>
         parameter q ''age'' = str_of_int n \<and> 0 \<le> n \<and> n \<le> 150 \<longrightarrow>
            validate_parameters q = Inr (True, None))
     \<and> (q \<noteq> JNull \<and> q \<noteq> JObj [] \<and> strip (parameter q ''name'') \<noteq> [] \<and>
         parameter q ''age'' = str_of_int n \<and> (n < 0 \<or> 150 < n) \<and>
         length (str_of_int n) \<le> 4300 \<longrightarrow>
            validate_parameters q = Inr (False, Some ''Age must be between 0 and 150''))
     \<and> (query_parameters event = q \<and> validate_parameters q = Inr (False, Some msg) \<longrightarrow>
            greeter_lambda_handler event ctx now =
              \<lparr>statusCode = 400, headers = None,
               body = dumps (JObj [(''error'', JStr msg), (''status'', JStr ''failed'')])\<rparr>)"
proof -
  have t: "truthy q \<longleftrightarrow> q \<noteq> JNull \<and> q \<noteq> JObj []"
    using assms by (cases q) (auto simp add: string_parameters_def)
  have r: "query_parameters event = q \<and> validate_parameters q = Inr (False, Some msg) \<longrightarrow>
            greeter_lambda_handler event ctx now =
              \<lparr>statusCode = 400, headers = None,
               body = dumps (JObj [(''error'', JStr msg), (''status'', JStr ''failed'')])\<rparr>"
    using greeter_rejected [of event "Some msg" ctx now]
    by (auto simp add: json_of_option_def simp del: dumps.simps)
  note v = validate_parameters_strings [OF assms] t
  have p1: "q = JNull \<or> q = JObj [] \<longrightarrow>
            validate_parameters q = Inr (False, Some ''No query parameters provided ya dodo'')"
    unfolding v by auto
  have p2: "q \<noteq> JNull \<and> q \<noteq> JObj [] \<and> strip (parameter q ''name'') = [] \<longrightarrow>
            validate_parameters q = Inr (False, Some ''Name parameter is required ya dodo'')"
    unfolding v by auto
  have p3: "q \<noteq> JNull \<and> q \<noteq> JObj [] \<and> strip (parameter q ''name'') \<noteq> [] \<and>
         parameter q ''age'' \<noteq> [] \<and> int_of_str (parameter q ''age'') = None \<longrightarrow>
            validate_parameters q = Inr (False, Some ''Age must be a valid number'')"
    unfolding v by auto
  have p3': "q \<noteq> JNull \<and> q \<noteq> JObj [] \<and> strip (parameter q ''name'') \<noteq> [] \<and>
         4300 < length (filter is_digit (parameter q ''age'')) \<longrightarrow>
            validate_parameters q = Inr (False, Some ''Age must be a valid number'')"
  proof -
    have "parameter q ''age'' \<noteq> [] \<and> int_of_str (parameter q ''age'') = None"
      if "4300 < length (filter is_digit (parameter q ''age''))"
      using that int_of_str_too_long [of "parameter q ''age''"] by auto
    with p3 show ?thesis by blast
  qed
  have p4: "q \<noteq> JNull \<and> q \<noteq> JObj [] \<and> strip (parameter q ''name'') \<noteq> [] \<and>
         parameter q ''age'' \<noteq> [] \<and> int_of_str (parameter q ''age'') = Some a \<and>
         (a < 0 \<or> 150 < a) \<longrightarrow>
            validate_parameters q = Inr (False, Some ''Age must be between 0 and 150'')"
    for a
    unfolding v by auto
  have p5: "q \<noteq> JNull \<and> q \<noteq> JObj [] \<and> strip (parameter q ''name'') \<noteq> [] \<and>
         (parameter q ''age'' = [] \<or>
          int_of_str (parameter q ''age'') = Some a \<and> 0 \<le> a \<and> a \<le> 150) \<longrightarrow>
            validate_parameters q = Inr (True, None)"
    for a
    unfolding v by auto
  have ne: "str_of_int n \<noteq> []"
    by (simp add: str_of_int_def str_of_nat_not_empty)
  have p6: "q \<noteq> JNull \<and> q \<noteq> JObj [] \<and> strip (parameter q ''name'') \<noteq> [] \<and>
         parameter q ''age'' = str_of_int n \<and> 0 \<le> n \<and> n \<le> 150 \<longrightarrow>
            validate_parameters q = Inr (True, None)"
    using p5 [of n] int_of_str_small [of n] by auto
  have p7: "q \<noteq> JNull \<and> q \<noteq> JObj [] \<and> strip (parameter q ''name'') \<noteq> [] \<and>
         parameter q ''age'' = str_of_int n \<and> (n < 0 \<or> 150 < n) \<and>
         length (str_of_int n) \<le> 4300 \<longrightarrow>
            validate_parameters q = Inr (False, Some ''Age must be between 0 and 150'')"
    using p4 [of n] int_of_str_str_of_int [of n] ne by auto
  from p1 p2 p3 p3' p4 [of a] p5 [of a] p6 p7 r show ?thesis by blast
qed

theorem validate_parameters_spec_witness:
  \<open>validate_parameters (JObj []) = Inr (False, Some ''No query parameters provided ya dodo'')
   \<and> validate_parameters (JObj [(''name'', JStr ''  ''), (''age'', JStr ''30'')]) =
       Inr (False, Some ''Name parameter is required ya dodo'')
   \<and> validate_parameters (JObj [(''name'', JStr ''Ada''), (''age'', JStr ''abc'')]) =
       Inr (False, Some ''Age must be a valid number'')
   \<and> validate_parameters
        (JObj [(''name'', JStr ''Ada''), (''age'', JStr (replicate 4301 CHR ''0'' @ ''5''))]) =
       Inr (False, Some ''Age must be a valid number'')
   \<and> validate_parameters (JObj [(''name'', JStr ''Ada''), (''age'', JStr ''200'')]) =
       Inr (False, Some ''Age must be between 0 and 150'')
   \<and> validate_parameters (JObj [(''name'', JStr ''Ada''), (''age'', JStr ''150'')]) = Inr (True, None)
   \<and> validate_parameters (JObj [(''name'', JStr ''Ada''), (''age'', JStr (str_of_int 42))]) =
       Inr (True, None)
   \<and> validate_parameters (JObj [(''name'', JStr ''Ada''), (''age'', JStr (str_of_int (- 3)))]) =
       Inr (False, Some ''Age must be between 0 and 150'')
   \<and> greeter_lambda_handler
        [(''queryStringParameters'', JObj [(''name'', JStr ''Ada''), (''age'', JStr ''200'')])]
        NoContext ''2024-05-01T10:00:00'' =
      \<lparr>statusCode = 400, headers = None,
       body = ''{"error": "Age must be between 0 and 150", "status": "failed"}''\<rparr>
   \<and> greeter_lambda_handler [(''queryStringParameters'', JObj [])]
        NoContext ''2024-05-01T10:00:00'' =
      \<lparr>statusCode = 400, headers = None,
       body = ''{"error": "No query parameters provided ya dodo", "status": "failed"}''\<rparr>\<close>
proof -
  let ?q0 = "JObj []"
  let ?q1 = "JObj [(''name'', JStr ''  ''), (''age'', JStr ''30'')]"
  let ?q2 = "JObj [(''name'', JStr ''Ada''), (''age'', JStr ''abc'')]"
  let ?q3 = "JObj [(''name'', JStr ''Ada''), (''age'', JStr ''200'')]"
  let ?q4 = "JObj [(''name'', JStr ''Ada''), (''age'', JStr ''150'')]"
  let ?e3 = "[(''queryStringParameters'', ?q3)]"
  let ?e0 = "[(''queryStringParameters'', ?q0)]"
  let ?now = "''2024-05-01T10:00:00''"
  note ev = string_parameters_def parameter_def strip_def is_space_def int_of_str_def max_str_digits_def Let_def
    is_int_space_def signed_digits_def is_digit_def digit_val_def query_parameters_def
    dict_get_def
  let ?q5 = "JObj [(''name'', JStr ''Ada''), (''age'', JStr (replicate 4301 CHR ''0'' @ ''5''))]"
  have s: "string_parameters ?q0" "string_parameters ?q1" "string_parameters ?q2"
    "string_parameters ?q3" "string_parameters ?q4" "string_parameters ?q5"
    by (simp_all add: string_parameters_def)
  let ?q6 = "JObj [(''name'', JStr ''Ada''), (''age'', JStr (str_of_int 42))]"
  let ?q7 = "JObj [(''name'', JStr ''Ada''), (''age'', JStr (str_of_int (- 3)))]"
  have s': "string_parameters ?q6" "string_parameters ?q7"
    by (simp_all add: string_parameters_def)
  have len: "length (str_of_int (- 3)) \<le> 4300"
    by (simp add: str_of_int_def str_of_nat.simps)
  have numeral: "validate_parameters ?q6 = Inr (True, None)"
    using validate_parameters_spec [OF s'(1), where n = 42]
    by (simp add: parameter_def strip_def is_space_def)
  have negative: "validate_parameters ?q7 = Inr (False, Some ''Age must be between 0 and 150'')"
    using len validate_parameters_spec [OF s'(2), where n = "- 3"]
    by (simp add: parameter_def strip_def is_space_def)
  have long: "validate_parameters ?q5 = Inr (False, Some ''Age must be a valid number'')"
    using validate_parameters_spec [OF s(6)]
    by (simp add: parameter_def strip_def is_space_def is_digit_def)
  have "validate_parameters ?q0 = Inr (False, Some ''No query parameters provided ya dodo'')"
    using validate_parameters_spec [OF s(1)] by simp
  moreover have "validate_parameters ?q1 = Inr (False, Some ''Name parameter is required ya dodo'')"
    using validate_parameters_spec [OF s(2)] by (simp add: ev)
  moreover have "validate_parameters ?q2 = Inr (False, Some ''Age must be a valid number'')"
    using validate_parameters_spec [OF s(3)] by (simp add: ev)
  moreover have q3: "validate_parameters ?q3 = Inr (False, Some ''Age must be between 0 and 150'')"
    using validate_parameters_spec [OF s(4), where a = 200] by (simp add: ev)
  moreover have "validate_parameters ?q4 = Inr (True, None)"
    using validate_parameters_spec [OF s(5), where a = 150] by (simp add: ev)
  moreover have "greeter_lambda_handler ?e3 NoContext ?now =
      \<lparr>statusCode = 400, headers = None,
       body = ''{\"error\": \"Age must be between 0 and 150\", \"status\": \"failed\"}''\<rparr>"
    using q3 validate_parameters_spec [OF s(4), where event = ?e3 and msg = "''Age must be between 0 and 150''" and ctx = NoContext and now = ?now]
    by (simp add: query_parameters_def dict_get_def quote_def escape_char_def)
  moreover have "greeter_lambda_handler ?e0 NoContext ?now =
      \<lparr>statusCode = 400, headers = None,
       body = ''{\"error\": \"No query parameters provided ya dodo\", \"status\": \"failed\"}''\<rparr>"
    using validate_parameters_spec [OF s(1), where event = ?e0 and msg = "''No query parameters provided ya dodo''" and ctx = NoContext and now = ?now]
    by (simp add: query_parameters_def dict_get_def quote_def escape_char_def)
  ultimately show ?thesis using long numeral negative by simp
qed

text \<open>
  C6, as stated, fails, in two ways. The query parameters
  \<^verbatim>\<open>{"name": "Ada", "age": "17"}\<close> pass validation, but when the event also has
  \<^verbatim>\<open>"requestContext": null\<close> the handler returns neither 200 nor 202:
  \<^verbatim>\<open>log_request_metrics\<close> calls \<^verbatim>\<open>.get\<close> on \<^verbatim>\<open>None\<close>, and the exception gives the 500
  response. And the query parameters \<^verbatim>\<open>{"name": "Ada", "age": 0}\<close>, with the age a
  number, pass validation with an age that is present and numerically below 18, but the
  status is 200: both \<^verbatim>\<open>if age_str\<close> and \<^verbatim>\<open>if age and ...\<close> test the truth value of the
  age, and zero is false.
\<close>

theorem greeter_valid_but_500_counterexample:
  "validate_parameters (query_parameters
      [(''queryStringParameters'', JObj [(''name'', JStr ''Ada''), (''age'', JStr ''17'')]),
       (''requestContext'', JNull)]) = Inr (True, None)
   \<and> statusCode (greeter_lambda_handler
      [(''queryStringParameters'', JObj [(''name'', JStr ''Ada''), (''age'', JStr ''17'')]),
       (''requestContext'', JNull)] NoContext ''2024-05-01T10:00:00'') = 500
   \<and> validate_parameters (query_parameters
      [(''queryStringParameters'', JObj [(''name'', JStr ''Ada''), (''age'', JInt 0)])]) =
       Inr (True, None)
   \<and> map_of [(''name'', JStr ''Ada''), (''age'', JInt 0)] ''age'' = Some (JInt 0)
   \<and> py_int (JInt 0) = Inr 0
   \<and> statusCode (greeter_lambda_handler
      [(''queryStringParameters'', JObj [(''name'', JStr ''Ada''), (''age'', JInt 0)])]
      NoContext ''2024-05-01T10:00:00'') = 200"
  by (simp add: greeter_eval)

text \<open>
  C6, amended. For every event whose query parameters pass validation and whose
  \<^verbatim>\<open>requestContext\<close>, when present, is a mapping with an \<^verbatim>\<open>http\<close> entry that, when
  present, is a mapping, the Greeter returns status 202 exactly when the \<^verbatim>\<open>age\<close> parameter
  is a true value (present, and not empty, zero or \<^verbatim>\<open>False\<close>) whose integer value is below
  18, and status 200 otherwise; for an age that is a string, that is exactly when it is
  not empty and parses as an integer below 18. The body is a success payload whose
  message is \<^verbatim>\<open>Hello\<close>, the name and \<^verbatim>\<open>!\<close>, and which echoes the age. For
  \<^verbatim>\<open>{"name": "Ada", "age": "17"}\<close> the status is 202 and the message is \<^verbatim>\<open>Hello Ada!\<close>.
\<close>

theorem greeter_status_by_age:
  assumes "query_parameters event = JObj d"
    and "validate_parameters (JObj d) = Inr (True, None)"
    and "metrics_readable event"
  shows "(\<exists>name. map_of d ''name'' = Some (JStr name) \<and>
     greeter_lambda_handler event ctx now =
       \<lparr>statusCode =
          (if truthy (dict_get d ''age'' JNull) \<and> below_18 (dict_get d ''age'' JNull)
           then 202 else 200),
        headers = Some [(''Content-Type'', ''application/json''),
                        (''X-Custom-Header'', ''Lambda Demo'')],
        body = dumps (JObj [(''message'', JStr (''Hello '' @ name @ ''!'')),
                            (''age_provided'', dict_get d ''age'' JNull),
                            (''processed_at'', JStr now),
                            (''status'', JStr ''success'')])\<rparr>)
   \<and> (statusCode (greeter_lambda_handler event ctx now) = 202 \<longleftrightarrow>
        truthy (dict_get d ''age'' JNull) \<and> below_18 (dict_get d ''age'' JNull))
   \<and> (statusCode (greeter_lambda_handler event ctx now) = 200 \<longleftrightarrow>
        \<not> (truthy (dict_get d ''age'' JNull) \<and> below_18 (dict_get d ''age'' JNull)))
   \<and> (map_of d ''age'' = Some (JStr s) \<longrightarrow>
        (statusCode (greeter_lambda_handler event ctx now) = 202 \<longleftrightarrow>
           s \<noteq> [] \<and> (\<exists>a. int_of_str s = Some a \<and> a < 18)))
   \<and> greeter_lambda_handler
        [(''queryStringParameters'', JObj [(''name'', JStr ''Ada''), (''age'', JStr ''17'')])]
        ctx now =
       \<lparr>statusCode = 202,
        headers = Some [(''Content-Type'', ''application/json''),
                        (''X-Custom-Header'', ''Lambda Demo'')],
        body = dumps (JObj [(''message'', JStr ''Hello Ada!''),
                            (''age_provided'', JStr ''17''),
                            (''processed_at'', JStr now),
                            (''status'', JStr ''success'')])\<rparr>"
proof -
  let ?age = "dict_get d ''age'' JNull"
  let ?r = "greeter_lambda_handler event ctx now"
  have v: "validate_parameters (query_parameters event) = Inr (True, None)"
    using assms(1,2) by simp
  have main: "\<exists>name. map_of d ''name'' = Some (JStr name) \<and>
     ?r = \<lparr>statusCode = (if truthy ?age \<and> below_18 ?age then 202 else 200),
        headers = Some [(''Content-Type'', ''application/json''),
                        (''X-Custom-Header'', ''Lambda Demo'')],
        body = dumps (JObj [(''message'', JStr (''Hello '' @ name @ ''!'')),
                            (''age_provided'', ?age),
                            (''processed_at'', JStr now),
                            (''status'', JStr ''success'')])\<rparr>"
    using greeter_valid [OF v assms(3), of ctx now] assms(1)
    by (auto simp del: dumps.simps)
  then have st: "statusCode ?r = (if truthy ?age \<and> below_18 ?age then 202 else 200)"
    by (auto simp del: dumps.simps)
  have s202: "statusCode ?r = 202 \<longleftrightarrow> truthy ?age \<and> below_18 ?age"
    by (simp add: st)
  have s200: "statusCode ?r = 200 \<longleftrightarrow> \<not> (truthy ?age \<and> below_18 ?age)"
    by (simp add: st)
  have str: "map_of d ''age'' = Some (JStr s) \<longrightarrow>
        (statusCode ?r = 202 \<longleftrightarrow> s \<noteq> [] \<and> (\<exists>a. int_of_str s = Some a \<and> a < 18))"
    by (auto simp add: st dict_get_def below_18_def split: option.splits)
  have ada: "greeter_lambda_handler
        [(''queryStringParameters'', JObj [(''name'', JStr ''Ada''), (''age'', JStr ''17'')])]
        ctx now =
       \<lparr>statusCode = 202,
        headers = Some [(''Content-Type'', ''application/json''),
                        (''X-Custom-Header'', ''Lambda Demo'')],
        body = dumps (JObj [(''message'', JStr ''Hello Ada!''),
                            (''age_provided'', JStr ''17''),
                            (''processed_at'', JStr now),
                            (''status'', JStr ''success'')])\<rparr>"
    by (simp add: greeter_eval del: dumps.simps)
  from main s202 s200 str ada show ?thesis by blast
qed

theorem greeter_status_by_age_witness:
  \<open>greeter_lambda_handler
      [(''queryStringParameters'', JObj [(''name'', JStr ''Ada''), (''age'', JStr ''17'')])]
      NoContext ''2024-05-01T10:00:00'' =
     \<lparr>statusCode = 202,
      headers = Some [(''Content-Type'', ''application/json''), (''X-Custom-Header'', ''Lambda Demo'')],
      body = ''{"message": "Hello Ada!", "age_provided": "17", "processed_at": "2024-05-01T10:00:00", "status": "success"}''\<rparr>
   \<and> statusCode (greeter_lambda_handler
      [(''queryStringParameters'', JObj [(''name'', JStr ''Ada''), (''age'', JStr ''18'')]),
       (''requestContext'', JObj [(''http'', JObj [(''method'', JStr ''GET'')])])]
      NoContext ''2024-05-01T10:00:00'') = 200\<close>
proof -
  let ?d = "[(''name'', JStr ''Ada''), (''age'', JStr ''17'')]"
  let ?e = "[(''queryStringParameters'', JObj ?d)]"
  let ?d2 = "[(''name'', JStr ''Ada''), (''age'', JStr ''18'')]"
  let ?e2 = "[(''queryStringParameters'', JObj ?d2),
       (''requestContext'', JObj [(''http'', JObj [(''method'', JStr ''GET'')])])]"
  let ?now = "''2024-05-01T10:00:00''"
  note ev = query_parameters_def dict_get_def validate_parameters_def strip_def is_space_def
    int_of_str_def max_str_digits_def Let_def is_int_space_def signed_digits_def is_digit_def
    digit_val_def metrics_readable_def below_18_def
  have q: "query_parameters ?e = JObj ?d" "query_parameters ?e2 = JObj ?d2"
    by (simp_all add: ev)
  have v: "validate_parameters (JObj ?d) = Inr (True, None)"
    "validate_parameters (JObj ?d2) = Inr (True, None)"
    by (simp_all add: ev)
  have m: "metrics_readable ?e" "metrics_readable ?e2"
    by (simp_all add: ev)
  have "greeter_lambda_handler ?e NoContext ?now =
     \<lparr>statusCode = 202,
      headers = Some [(''Content-Type'', ''application/json''), (''X-Custom-Header'', ''Lambda Demo'')],
      body = ''{\"message\": \"Hello Ada!\", \"age_provided\": \"17\", \"processed_at\": \"2024-05-01T10:00:00\", \"status\": \"success\"}''\<rparr>"
    using greeter_status_by_age [OF q(1) v(1) m(1), of NoContext ?now "''17''"]
    by (simp add: ev quote_def escape_char_def)
  moreover have "statusCode (greeter_lambda_handler ?e2 NoContext ?now) = 200"
    using greeter_status_by_age [OF q(2) v(2) m(2), of NoContext ?now "''18''"]
    by (simp add: ev del: dumps.simps)
  ultimately show ?thesis by simp
qed

text \<open>
  C7, as stated, fails. The query parameters \<^verbatim>\<open>{"name": "Ada"}\<close> have a valid name and
  no \<^verbatim>\<open>age\<close> key, but when the event also has \<^verbatim>\<open>"requestContext": "local-test"\<close> the
  handler returns 500: \<^verbatim>\<open>log_request_metrics\<close> calls \<^verbatim>\<open>.get\<close> on a string.
\<close>

theorem greeter_no_age_but_500_counterexample:
  "map_of [(''queryStringParameters'', JObj [(''name'', JStr ''Ada'')]),
           (''requestContext'', JStr ''local-test'')] ''queryStringParameters'' =
     Some (JObj [(''name'', JStr ''Ada'')])
   \<and> map_of [(''name'', JStr ''Ada'')] ''age'' = None
   \<and> validate_parameters (JObj [(''name'', JStr ''Ada'')]) = Inr (True, None)
   \<and> statusCode (greeter_lambda_handler
      [(''queryStringParameters'', JObj [(''name'', JStr ''Ada'')]),
       (''requestContext'', JStr ''local-test'')] NoContext ''2024-05-01T10:00:00'') = 500"
  by (simp add: greeter_eval)

text \<open>
  C7, amended. For every event whose query parameters have a \<^verbatim>\<open>name\<close> that is not
  empty after trimming and no \<^verbatim>\<open>age\<close> key, and whose \<^verbatim>\<open>requestContext\<close>, when present, is
  a mapping with an \<^verbatim>\<open>http\<close> entry that, when present, is a mapping, the Greeter returns
  status 200 and a success body in which \<^verbatim>\<open>age_provided\<close> is \<^verbatim>\<open>null\<close>.
\<close>

theorem greeter_no_age:
  assumes "map_of event ''queryStringParameters'' = Some (JObj d)"
    and "map_of d ''name'' = Some (JStr name)" and "strip name \<noteq> []"
    and "map_of d ''age'' = None"
    and "metrics_readable event"
  shows "greeter_lambda_handler event ctx now =
       \<lparr>statusCode = 200,
        headers = Some [(''Content-Type'', ''application/json''),
                        (''X-Custom-Header'', ''Lambda Demo'')],
        body = dumps (JObj [(''message'', JStr (''Hello '' @ name @ ''!'')),
                            (''age_provided'', JNull),
                            (''processed_at'', JStr now),
                            (''status'', JStr ''success'')])\<rparr>"
proof -
  have q: "query_parameters event = JObj d"
    using assms(1,2) by (rule greeter_query_parameters)
  have "d \<noteq> []" using assms(2) by auto
  then have v: "validate_parameters (query_parameters event) = Inr (True, None)"
    using assms(2,3,4) by (simp add: q validate_parameters_def dict_get_def)
  show ?thesis
    using greeter_valid [OF v assms(5), of ctx now] q assms(2,4)
    by (auto simp add: dict_get_def simp del: dumps.simps)
qed

theorem greeter_no_age_witness:
  \<open>greeter_lambda_handler [(''queryStringParameters'', JObj [(''name'', JStr ''Ada'')])]
      NoContext ''2024-05-01T10:00:00'' =
     \<lparr>statusCode = 200,
      headers = Some [(''Content-Type'', ''application/json''), (''X-Custom-Header'', ''Lambda Demo'')],
      body = ''{"message": "Hello Ada!", "age_provided": null, "processed_at": "2024-05-01T10:00:00", "status": "success"}''\<rparr>\<close>
proof -
  let ?d = "[(''name'', JStr ''Ada'')]"
  let ?e = "[(''queryStringParameters'', JObj ?d)]"
  have "metrics_readable ?e"
    by (simp add: metrics_readable_def dict_get_def)
  moreover have "strip ''Ada'' \<noteq> []"
    by (simp add: strip_def is_space_def)
  ultimately show ?thesis
    using greeter_no_age [of ?e ?d "''Ada''" NoContext "''2024-05-01T10:00:00''"]
    by (simp add: quote_def escape_char_def)
qed

text \<open>
  C8, as stated, fails. The query parameters \<^verbatim>\<open>{"name": "Ada", "age": ""}\<close> are
  accepted, but when the event also has \<^verbatim>\<open>"requestContext": {"http": null}\<close> the handler
  returns 500: \<^verbatim>\<open>log_request_metrics\<close> calls \<^verbatim>\<open>.get\<close> on \<^verbatim>\<open>None\<close>.
\<close>

theorem greeter_empty_age_but_500_counterexample:
  "map_of [(''queryStringParameters'', JObj [(''name'', JStr ''Ada''), (''age'', JStr [])]),
           (''requestContext'', JObj [(''http'', JNull)])] ''queryStringParameters'' =
     Some (JObj [(''name'', JStr ''Ada''), (''age'', JStr [])])
   \<and> map_of [(''name'', JStr ''Ada''), (''age'', JStr [])] ''age'' = Some (JStr [])
   \<and> validate_parameters (JObj [(''name'', JStr ''Ada''), (''age'', JStr [])]) = Inr (True, None)
   \<and> statusCode (greeter_lambda_handler
      [(''queryStringParameters'', JObj [(''name'', JStr ''Ada''), (''age'', JStr [])]),
       (''requestContext'', JObj [(''http'', JNull)])] NoContext ''2024-05-01T10:00:00'') = 500"
  by (simp add: greeter_eval)

text \<open>
  C8, amended. For every event whose query parameters have a \<^verbatim>\<open>name\<close> that is not
  empty after trimming and an \<^verbatim>\<open>age\<close> that is the empty string, and whose
  \<^verbatim>\<open>requestContext\<close>, when present, is a mapping with an \<^verbatim>\<open>http\<close> entry that, when
  present, is a mapping, validation accepts the request without a range check, and the
  Greeter returns status 200, not 202, with a success body in which \<^verbatim>\<open>age_provided\<close> is
  the empty string, not \<^verbatim>\<open>null\<close>.
\<close>

theorem greeter_empty_age:
  assumes "map_of event ''queryStringParameters'' = Some (JObj d)"
    and "map_of d ''name'' = Some (JStr name)" and "strip name \<noteq> []"
    and "map_of d ''age'' = Some (JStr [])"
    and "metrics_readable event"
  shows "validate_parameters (JObj d) = Inr (True, None) \<and>
     greeter_lambda_handler event ctx now =
       \<lparr>statusCode = 200,
        headers = Some [(''Content-Type'', ''application/json''),
                        (''X-Custom-Header'', ''Lambda Demo'')],
        body = dumps (JObj [(''message'', JStr (''Hello '' @ name @ ''!'')),
                            (''age_provided'', JStr []),
                            (''processed_at'', JStr now),
                            (''status'', JStr ''success'')])\<rparr>"
proof -
  have q: "query_parameters event = JObj d"
    using assms(1,2) by (rule greeter_query_parameters)
  have "d \<noteq> []" using assms(2) by auto
  then have v: "validate_parameters (JObj d) = Inr (True, None)"
    using assms(2,3,4) by (simp add: validate_parameters_def dict_get_def)
  then have v': "validate_parameters (query_parameters event) = Inr (True, None)"
    by (simp add: q)
  show ?thesis
    using greeter_valid [OF v' assms(5), of ctx now] q v assms(2,4)
    by (auto simp add: dict_get_def simp del: dumps.simps)
qed

theorem greeter_empty_age_witness:
  \<open>greeter_lambda_handler
      [(''queryStringParameters'', JObj [(''name'', JStr ''Ada''), (''age'', JStr [])])]
      NoContext ''2024-05-01T10:00:00'' =
     \<lparr>statusCode = 200,
      headers = Some [(''Content-Type'', ''application/json''), (''X-Custom-Header'', ''Lambda Demo'')],
      body = ''{"message": "Hello Ada!", "age_provided": "", "processed_at": "2024-05-01T10:00:00", "status": "success"}''\<rparr>\<close>
proof -
  let ?d = "[(''name'', JStr ''Ada''), (''age'', JStr [])]"
  let ?e = "[(''queryStringParameters'', JObj ?d)]"
  have "metrics_readable ?e"
    by (simp add: metrics_readable_def dict_get_def)
  moreover have "strip ''Ada'' \<noteq> []"
    by (simp add: strip_def is_space_def)
  ultimately show ?thesis
    using greeter_empty_age [of ?e ?d "''Ada''" NoContext "''2024-05-01T10:00:00''"]
    by (simp add: quote_def escape_char_def)
qed

section \<open>Properties of both handlers\<close>

text \<open>
  C3, as stated, fails. The Greeter's answer to an event without query parameters is
  the 400 response, which is returned without a \<^verbatim>\<open>headers\<close> field.
\<close>

theorem greeter_no_headers_counterexample:
  "headers (greeter_lambda_handler [] NoContext ''2024-05-01T10:00:00'') = None
   \<and> statusCode (greeter_lambda_handler [] NoContext ''2024-05-01T10:00:00'') = 400"
  by (simp add: greeter_lambda_handler_def greeter_try_def query_parameters_def dict_get_def
      validate_parameters_def)

text \<open>
  C3, amended. For every event, invocation context and clock reading, the response of
  either handler has an integer status code and a body that is the JSON encoding of a
  mapping. The Greeter's status code is one of 200, 202, 400, 500 and the IP extractor's
  is one of 200, 400, 403, 500, so that 202 is returned by the Greeter only and 403 by the
  IP extractor only. Every response of the IP extractor has a string-to-string headers
  mapping; the Greeter's response has one exactly when its status code is 200 or 202, and
  its 400 and 500 responses have no headers field.
\<close>

theorem response_shape:
  "statusCode (greeter_lambda_handler event ctx now) \<in> {200, 202, 400, 500}
   \<and> statusCode (extractor_lambda_handler event ctx now) \<in> {200, 400, 403, 500}
   \<and> (\<exists>payload. body (greeter_lambda_handler event ctx now) = dumps (JObj payload))
   \<and> (\<exists>payload. body (extractor_lambda_handler event ctx now) = dumps (JObj payload))
   \<and> (\<exists>hs. headers (extractor_lambda_handler event ctx now) = Some hs)
   \<and> (headers (greeter_lambda_handler event ctx now) = None \<longleftrightarrow>
        statusCode (greeter_lambda_handler event ctx now) \<in> {400, 500})
   \<and> (headers (greeter_lambda_handler event ctx now) \<noteq> None \<longleftrightarrow>
        statusCode (greeter_lambda_handler event ctx now) \<in> {200, 202})
   \<and> statusCode (greeter_lambda_handler
        [(''queryStringParameters'', JObj [(''name'', JStr ''Ada''), (''age'', JStr ''17'')])]
        ctx now) = 202
   \<and> statusCode (extractor_lambda_handler [] ctx now) = 403"
proof -
  have "statusCode (greeter_lambda_handler
        [(''queryStringParameters'', JObj [(''name'', JStr ''Ada''), (''age'', JStr ''17'')])]
        ctx now) = 202"
    by (simp add: greeter_lambda_handler_def greeter_try_def query_parameters_def dict_get_def
        validate_parameters_def strip_def is_space_def int_of_str_def max_str_digits_def Let_def is_int_space_def
        signed_digits_def is_digit_def digit_val_def log_request_metrics_def
        status_for_age_def del: dumps.simps)
  moreover have "statusCode (extractor_lambda_handler [] ctx now) = 403"
    by (simp add: extractor_rejected validate_request_cases del: dumps.simps)
  ultimately show ?thesis
    using greeter_shape [of event ctx now] extractor_shape [of event ctx now]
    by auto
qed

theorem response_shape_witness:
  "statusCode (greeter_lambda_handler [] NoContext ''2024-05-01T10:00:00'') \<in> {200, 202, 400, 500}
   \<and> statusCode (extractor_lambda_handler [] NoContext ''2024-05-01T10:00:00'') \<in> {200, 400, 403, 500}
   \<and> (headers (greeter_lambda_handler [] NoContext ''2024-05-01T10:00:00'') = None \<longleftrightarrow>
        statusCode (greeter_lambda_handler [] NoContext ''2024-05-01T10:00:00'') \<in> {400, 500})
   \<and> (\<exists>hs. headers (extractor_lambda_handler [] NoContext ''2024-05-01T10:00:00'') = Some hs)"
  using response_shape [of "[]" NoContext "''2024-05-01T10:00:00''"]
  by blast


end
